theory Spec2Isabelle
  imports Complex_Main "HOL-Library.Log_Nat"
begin

section \<open>Values of the JavaScript runtime\<close>

text \<open>
  The three scripts of the repository are DOM event handlers. Each handler is embedded as a
  function from the part of the page it reads and writes, and from the outcome of the
  requests it awaits, to the updated page and the list of effects it causes, in order.
  An exception that no \<open>try\<close> of the source catches ends the handler and is recorded as the
  last effect.

  Strings are lists of characters. The Japanese literals of the source are given by
  named constants holding an English rendering, since only the identity of a literal
  matters below.
\<close>

text \<open>
  A number as \<open>Number(..)\<close> and \<open>parseInt(..)\<close> return it on the attributes the scripts
  read: an integer, an infinity, or \<open>NaN\<close>. The strict equality \<open>===\<close> never holds for
  \<open>NaN\<close>.
\<close>

datatype jsnum = NaN | Num int | PosInf | NegInf

fun strict_eq :: "jsnum \<Rightarrow> jsnum \<Rightarrow> bool" where
  "strict_eq (Num a) (Num b) = (a = b)"
| "strict_eq PosInf PosInf = True"
| "strict_eq NegInf NegInf = True"
| "strict_eq _ _ = False"

text \<open>\<open>x === v\<close> for a variable \<open>v\<close> that holds \<open>null\<close> (\<open>None\<close>) or a number.\<close>

definition strict_eq_opt :: "jsnum \<Rightarrow> jsnum option \<Rightarrow> bool" where
  "strict_eq_opt x v = (case v of None \<Rightarrow> False | Some c \<Rightarrow> strict_eq x c)"

text \<open>
  \<open>Number(id)\<close> for a \<open>data-id\<close> attribute that is the decimal numeral of the integer \<open>n\<close>:
  the double nearest to \<open>n\<close>, ties going to the even significand, and an infinity from
  \<open>2 ^ 1024\<close> on. Below \<open>2 ^ 53\<close> every integer is a double; above, \<open>e\<close> is the number of
  bits that do not fit into the 53 bits of the significand \<open>q\<close>.
\<close>

definition js_Number :: "int \<Rightarrow> jsnum" where
  "js_Number n =
     (let a = \<bar>n\<bar> in
      if a < 2 ^ 53 then Num n
      else (let e = nat (bitlen a) - 53;
                q = a div 2 ^ e;
                r = a mod 2 ^ e;
                h = 2 ^ (e - 1);
                m = (if h < r \<or> (r = h \<and> odd q) then q + 1 else q) * 2 ^ e
            in if 2 ^ 1024 \<le> m then (if n < 0 then NegInf else PosInf)
               else Num (if n < 0 then - m else m)))"

text \<open>
  \<open>parseInt(String(n))\<close> for a number \<open>n\<close> that is an integer, which is how the value of an
  option created from an id is read back. Below \<open>10 ^ 21\<close> the text is the decimal
  numeral and the number is read back as it is. From \<open>10 ^ 21\<close> on the text is in
  exponent notation, \<open>d.ddde+XX\<close> or \<open>de+XX\<close>, and \<open>parseInt\<close> stops after the leading
  digit \<open>d\<close>. The digits are those of the shortest decimal that rounds to \<open>n\<close>: with \<open>q\<close>
  the significand of \<open>n\<close> and \<open>lo\<close>, \<open>hi\<close> the midpoints to the neighbouring doubles
  (which round to \<open>n\<close> when \<open>q\<close> is even), the leading digit is that of the multiple of
  the leading power of ten between them, if there is one, and that of \<open>n\<close> otherwise.
  \<open>decimal_digits\<close> counts the digits of the decimal numeral of a natural number.
\<close>

function decimal_digits :: "int \<Rightarrow> nat" where
  "decimal_digits a = (if a < 10 then 1 else Suc (decimal_digits (a div 10)))"
  by pat_completeness auto
termination
  by (relation "measure nat") auto

declare decimal_digits.simps [simp del]

definition parseInt_String :: "int \<Rightarrow> jsnum" where
  "parseInt_String n =
     (let a = \<bar>n\<bar> in
      if a < 10 ^ 21 then Num n
      else (let e = nat (bitlen a) - 53;
                q = a div 2 ^ e;
                lo = a - (if q = 2 ^ 52 then 2 ^ (e - 2) else 2 ^ (e - 1));
                hi = a + 2 ^ (e - 1);
                m = decimal_digits a - 1;
                ks = filter (\<lambda>k. if even q then lo \<le> k * 10 ^ m \<and> k * 10 ^ m \<le> hi
                                  else lo < k * 10 ^ m \<and> k * 10 ^ m < hi)
                       [1, 2, 3, 4, 5, 6, 7, 8, 9, 10];
                d = (case ks of [] \<Rightarrow> a div 10 ^ m | k # _ \<Rightarrow> if k = 10 then 1 else k)
            in Num (if n < 0 then - d else d)))"

text \<open>
  What \<open>JSON.parse\<close> and \<open>res.json()\<close> return. An object is kept as the list of its
  properties (keys distinct, as in the parsed object); a number as the value of the double.
\<close>

datatype json =
    JNull
  | JBool bool
  | JNum rat
  | JStr string
  | JArr "json list"
  | JObj "(string \<times> json) list"

text \<open>
  Reading the property \<open>k\<close> of a value that is not \<open>null\<close>, for the keys the scripts read
  (\<open>status\<close>, \<open>message\<close>, \<open>detail\<close>): \<open>None\<close> stands for \<open>undefined\<close>. Reading a property
  of \<open>null\<close> throws a TypeError, which every caller below handles before calling \<open>get_prop\<close>.
\<close>

fun get_prop :: "json \<Rightarrow> string \<Rightarrow> json option" where
  "get_prop (JObj kvs) k = map_of kvs k"
| "get_prop _ k = None"

fun truthy :: "json option \<Rightarrow> bool" where
  "truthy None = False"
| "truthy (Some JNull) = False"
| "truthy (Some (JBool b)) = b"
| "truthy (Some (JNum n)) = (n \<noteq> 0)"
| "truthy (Some (JStr s)) = (s \<noteq> [])"
| "truthy (Some (JArr _)) = True"
| "truthy (Some (JObj _)) = True"

text \<open>The operator \<open>a || b\<close>.\<close>

definition js_or :: "json option \<Rightarrow> json option \<Rightarrow> json option" where
  "js_or a b = (if truthy a then a else b)"

text \<open>\<open>String.prototype.trim\<close> on the white space a \<open>char\<close> can hold.\<close>

definition is_space :: "char \<Rightarrow> bool" where
  "is_space c = (c \<in> set [CHR 0x09, CHR 0x0A, CHR 0x0B, CHR 0x0C, CHR 0x0D, CHR 0x20, CHR 0xA0])"

definition trim :: "string \<Rightarrow> string" where
  "trim s = rev (dropWhile is_space (rev (dropWhile is_space s)))"

subsection \<open>Requests, responses and effects\<close>

datatype exn = SyntaxError | TypeError | NetworkError

text \<open>
  The outcome of an awaited \<open>fetch\<close> whose body is then read as JSON: the request is
  rejected, or a response arrives with its \<open>ok\<close> flag and its body, \<open>None\<close> when reading
  or parsing the body throws.
\<close>

datatype fetched = Rejected | Response bool "json option"

text \<open>
  The outcome of one of the two list requests (\<open>/admin/api/topics\<close>, \<open>/admin/api/groups\<close>),
  whose \<open>ok\<close> flag the source never reads: the request is rejected, the body is not JSON,
  the body is JSON but has no \<open>forEach\<close>, or it is an array of entities
  \<open>{id, name}\<close> with an integer id and a name free of markup, as the endpoint returns them.
  The id is the integer that the parsed number holds.
\<close>

datatype listing = FetchRejected | BodyNotJson | NotAnArray | Entities "(int \<times> string) list"

text \<open>
  The requests. An update or a delete sends the \<open>data-id\<close> of the button as it is written;
  a list request and a create send the number held by \<open>currentCategoryId\<close> or
  \<open>currentTopicId\<close>.
\<close>

datatype request =
    CategoryCreate string string string
  | CategoryUpdate int string
  | CategoryDelete int
  | TopicsGet jsnum
  | TopicCreate jsnum string
  | TopicUpdate int string
  | TopicDelete int
  | GroupsGet jsnum
  | GroupCreate jsnum string
  | GroupUpdate int string
  | GroupDelete int
  | PostStatus string string

text \<open>
  \<open>Alert v\<close> is \<open>alert(v)\<close>, the dialog showing \<open>String(v)\<close>; \<open>AlertExn e\<close> is
  \<open>alert(err.message)\<close> for an exception the runtime raised, whose text is the engine's.
\<close>

datatype effect =
    Request request
  | Alert "json option"
  | AlertExn exn
  | ConsoleError
  | Reload
  | Uncaught exn

section \<open>The status toggle\<close>

definition STATUS_PUBLIC :: jsnum where
  "STATUS_PUBLIC = Num 0"

definition STATUS_PRIVATE :: jsnum where
  "STATUS_PRIVATE = Num 1"

definition msg_update_failed :: string where
  "msg_update_failed = ''Update failed''"

text \<open>
  A \<open>.status-btn\<close> with its \<open>data-status\<close> attribute and whether it carries the class
  \<open>is-active\<close>; a \<open>.status-toggle\<close> with its \<open>data-post-id\<close>, the number its
  \<open>data-current\<close> attribute reads as, and its buttons.
\<close>

record status_btn =
  btn_status :: string
  is_active :: bool

record toggle =
  postId :: string
  current :: jsnum
  btns :: "status_btn list"

definition btnStatus :: "status_btn \<Rightarrow> jsnum" where
  "btnStatus b = (if btn_status b = ''public'' then STATUS_PUBLIC else STATUS_PRIVATE)"

definition applyActiveState :: "toggle \<Rightarrow> jsnum \<Rightarrow> toggle" where
  "applyActiveState t currentStatus =
     t\<lparr>btns := map (\<lambda>b. b\<lparr>is_active := strict_eq (btnStatus b) currentStatus\<rparr>) (btns t),
       current := currentStatus\<rparr>"

text \<open>
  \<open>updateStatus\<close>, given the outcome of its \<open>fetch\<close>: the request it sends, and whether
  it returns normally (on an \<open>ok\<close> response) or throws, either the \<open>Error\<close> it builds from
  the body or what reading the body raised. \<open>Inl\<close> carries what the caller's \<open>catch\<close> then
  passes to \<open>alert\<close>: the message of \<open>new Error(v)\<close> is \<open>String(v)\<close>, which is what
  \<open>alert(v)\<close> shows.
\<close>

definition updateStatus :: "string \<Rightarrow> string \<Rightarrow> fetched \<Rightarrow> request \<times> (effect + unit)" where
  "updateStatus post statusStr res =
     (PostStatus post statusStr,
      (case res of
         Rejected \<Rightarrow> Inl (AlertExn NetworkError)
       | Response ok body \<Rightarrow>
           if ok then Inr ()
           else (case body of
                   None \<Rightarrow> Inl (AlertExn SyntaxError)
                 | Some JNull \<Rightarrow> Inl (AlertExn TypeError)
                 | Some data \<Rightarrow>
                     Inl (Alert (js_or (get_prop data ''message'')
                                   (Some (JStr msg_update_failed)))))))"

text \<open>
  The click handler of a button \<open>b\<close> of the toggle \<open>t\<close>, in two parts. \<open>status_click_start\<close>
  runs up to the call of \<open>updateStatus\<close>: \<open>None\<close> when the handler returns at once,
  otherwise the saved state \<open>prev\<close> and the toggle as it is shown while the request is
  pending. \<open>status_click\<close> is the whole handler, given the outcome of the request.
\<close>

definition status_target :: "jsnum \<Rightarrow> string" where
  "status_target nextStatus = (if strict_eq nextStatus STATUS_PUBLIC then ''public'' else ''private'')"

definition status_click_start :: "toggle \<Rightarrow> status_btn \<Rightarrow> (jsnum \<times> toggle) option" where
  "status_click_start t b =
     (let nextStatus = btnStatus b in
      if strict_eq (current t) nextStatus then None
      else Some (current t, applyActiveState t nextStatus))"

definition status_click :: "toggle \<Rightarrow> status_btn \<Rightarrow> fetched \<Rightarrow> toggle \<times> effect list" where
  "status_click t b res =
     (case status_click_start t b of
        None \<Rightarrow> (t, [])
      | Some (prev, t1) \<Rightarrow>
          (case updateStatus (postId t) (status_target (btnStatus b)) res of
             (req, Inr _) \<Rightarrow> (t1, [Request req])
           | (req, Inl shown) \<Rightarrow> (applyActiveState t1 prev, [Request req, shown])))"

text \<open>A toggle as the page shows it once the initialisation has run \<open>applyActiveState\<close> on it.\<close>

definition initialised :: "toggle \<Rightarrow> bool" where
  "initialised t = (t = applyActiveState t (current t))"

section \<open>The static hierarchy filter\<close>

text \<open>
  The entities which the host page preloads into \<open>window.topics\<close> and \<open>window.groups\<close>;
  identifiers are numbers that are integers.
\<close>

record topic =
  t_id :: int
  t_name :: string
  t_category_id :: int

record grp =
  g_id :: int
  g_name :: string
  g_topic_id :: int

text \<open>
  A \<open>select\<close> element. An option is kept as the number \<open>parseInt\<close> reads from its value
  and its text; \<open>selectedIndex\<close> is \<open>None\<close> when no option is selected, and \<open>listbox\<close>
  tells a list box (\<open>multiple\<close>, or a display size above one), where the browser selects
  nothing by itself, from a drop-down, where it selects the first option inserted.
\<close>

record select_el =
  opts :: "(jsnum \<times> string) list"
  selectedIndex :: "nat option"
  listbox :: bool

text \<open>
  The form: each of the three \<open>select\<close> elements, \<open>None\<close> when \<open>getElementById\<close> finds
  none, and the two preloaded arrays.
\<close>

record form =
  categorySelect :: "select_el option"
  topicSelect :: "select_el option"
  groupSelect :: "select_el option"
  topics :: "topic list"
  groups :: "grp list"

text \<open>\<open>parseInt(el.value)\<close>: the value of a \<open>select\<close> without a selected option is empty.\<close>

definition parseInt_value :: "select_el \<Rightarrow> jsnum" where
  "parseInt_value el =
     (case selectedIndex el of
        None \<Rightarrow> NaN
      | Some i \<Rightarrow> if i < length (opts el) then fst (opts el ! i) else NaN)"

text \<open>\<open>el.innerHTML = ""\<close> and \<open>el.appendChild(opt)\<close>.\<close>

definition clear_options :: "select_el \<Rightarrow> select_el" where
  "clear_options el = el\<lparr>opts := [], selectedIndex := None\<rparr>"

definition appendChild :: "select_el \<Rightarrow> jsnum \<times> string \<Rightarrow> select_el" where
  "appendChild el opt =
     el\<lparr>opts := opts el @ [opt],
        selectedIndex :=
          (if listbox el then selectedIndex el
           else (case selectedIndex el of None \<Rightarrow> Some 0 | Some i \<Rightarrow> Some i))\<rparr>"

text \<open>
  The option created for an entity: \<open>opt.value = t.id\<close> stores the text of the id, which
  \<open>parseInt\<close> later reads back.
\<close>

definition topic_option :: "topic \<Rightarrow> jsnum \<times> string" where
  "topic_option t = (parseInt_String (t_id t), t_name t)"

definition group_option :: "grp \<Rightarrow> jsnum \<times> string" where
  "group_option g = (parseInt_String (g_id g), g_name g)"

text \<open>The two change handlers; \<open>forEach\<close> is \<open>fold\<close>.\<close>

definition updateGroups :: "form \<Rightarrow> form" where
  "updateGroups f =
     (case topicSelect f of
        None \<Rightarrow> f
      | Some ts \<Rightarrow>
          (case groupSelect f of
             None \<Rightarrow> f
           | Some gs \<Rightarrow>
               (let selectedTopic = parseInt_value ts;
                    filteredGroups =
                      filter (\<lambda>g. strict_eq (Num (g_topic_id g)) selectedTopic) (groups f)
                in f\<lparr>groupSelect :=
                       Some (fold (\<lambda>g el. appendChild el (group_option g)) filteredGroups
                               (clear_options gs))\<rparr>)))"

definition updateTopics :: "form \<Rightarrow> form" where
  "updateTopics f =
     (case categorySelect f of
        None \<Rightarrow> f
      | Some cs \<Rightarrow>
          (case topicSelect f of
             None \<Rightarrow> f
           | Some ts \<Rightarrow>
               (let selectedCategory = parseInt_value cs;
                    filteredTopics =
                      filter (\<lambda>t. strict_eq (Num (t_category_id t)) selectedCategory) (topics f)
                in updateGroups
                     (f\<lparr>topicSelect :=
                          Some (fold (\<lambda>t el. appendChild el (topic_option t)) filteredTopics
                                  (clear_options ts))\<rparr>))))"

section \<open>The category management page\<close>

subsection \<open>Fixed texts\<close>

definition msg_enter_category_name :: string where
  "msg_enter_category_name = ''Please enter a category name''"

definition msg_category_update_failed :: string where
  "msg_category_update_failed = ''Could not update the category.''"

definition msg_category_delete_failed :: string where
  "msg_category_delete_failed = ''Could not delete the category.''"

definition msg_category_name_required :: string where
  "msg_category_name_required = ''Category name is required''"

definition label_selected_category :: string where
  "label_selected_category = ''Selected category: ''"

definition msg_select_topic :: string where
  "msg_select_topic = ''Please select a topic''"

definition msg_enter_topic_name :: string where
  "msg_enter_topic_name = ''Please enter a topic name''"

definition msg_topic_update_failed :: string where
  "msg_topic_update_failed = ''Could not update the topic.''"

definition msg_topic_delete_failed :: string where
  "msg_topic_delete_failed = ''Could not delete the topic.''"

definition msg_select_category_first :: string where
  "msg_select_category_first = ''Select a category first''"

definition msg_topic_create_failed :: string where
  "msg_topic_create_failed = ''Could not add the topic.''"

definition label_selected_topic :: string where
  "label_selected_topic = ''Selected topic: ''"

definition msg_enter_group_name :: string where
  "msg_enter_group_name = ''Please enter a group name''"

definition msg_group_update_failed :: string where
  "msg_group_update_failed = ''Could not update the group.''"

definition msg_group_delete_failed :: string where
  "msg_group_delete_failed = ''Could not delete the group.''"

definition msg_select_topic_first :: string where
  "msg_select_topic_first = ''Select a topic first''"

definition msg_group_create_failed :: string where
  "msg_group_create_failed = ''Could not add the group.''"

subsection \<open>Rows and the page\<close>

text \<open>
  A row of one of the three lists: the six elements that carry the row's \<open>data-id\<close>, an
  integer. \<open>row_label\<close> is the \<open>textContent\<close> of the name span, \<open>edit_value\<close> the value of
  the edit field, and each flag tells whether the element carries the class \<open>hidden\<close>:
  the name span, the edit field, and the edit, save, cancel and delete buttons. The
  \<open>data-id\<close> identifies the row within its list, so that the button a handler is attached
  to belongs to the row which \<open>querySelector\<close> finds for the button's \<open>data-id\<close>.
\<close>

record row =
  rid :: int
  row_label :: string
  edit_value :: string
  name_hidden :: bool
  input_hidden :: bool
  edit_hidden :: bool
  save_hidden :: bool
  cancel_hidden :: bool
  delete_hidden :: bool

text \<open>
  The four variables of the script and the parts of the document it reads and writes:
  the three lists, the two labels \<open>#current-category\<close> and \<open>#current-topic\<close>, whether the
  two areas \<open>#topic-create-area\<close> and \<open>#group-create-area\<close> are hidden, and the values
  of the three fields \<open>#new-category\<close>, \<open>#new-topic\<close> and \<open>#new-group\<close>. The two current
  ids hold \<open>null\<close> (\<open>None\<close>) or a number, which the click on a name obtains from the
  \<open>data-id\<close> of the row by \<open>Number\<close>.
\<close>

record page =
  currentCategoryId :: "jsnum option"
  currentCategoryName :: string
  currentTopicId :: "jsnum option"
  currentTopicName :: string
  category_rows :: "row list"
  topic_rows :: "row list"
  group_rows :: "row list"
  current_category_label :: string
  current_topic_label :: string
  topic_create_hidden :: bool
  group_create_hidden :: bool
  new_category :: string
  new_topic :: string
  new_group :: string

text \<open>\<open>querySelector\<close> for a \<open>data-id\<close>: the first row that carries it.\<close>

definition find_row :: "int \<Rightarrow> row list \<Rightarrow> row option" where
  "find_row i rows = find (\<lambda>r. rid r = i) rows"

text \<open>Writing to the elements which \<open>querySelector\<close> found.\<close>

fun upd_row :: "int \<Rightarrow> (row \<Rightarrow> row) \<Rightarrow> row list \<Rightarrow> row list" where
  "upd_row i f [] = []"
| "upd_row i f (r # rs) = (if rid r = i then f r # rs else r # upd_row i f rs)"

text \<open>The two states of a row.\<close>

definition viewing :: "row \<Rightarrow> bool" where
  "viewing r = (\<not> name_hidden r \<and> \<not> edit_hidden r \<and> \<not> delete_hidden r
                \<and> input_hidden r \<and> save_hidden r \<and> cancel_hidden r)"

definition editing :: "row \<Rightarrow> bool" where
  "editing r = (name_hidden r \<and> edit_hidden r \<and> delete_hidden r
                \<and> \<not> input_hidden r \<and> \<not> save_hidden r \<and> \<not> cancel_hidden r)"

text \<open>
  The body of the three edit handlers, which differ in the class names only: the edit field
  takes the trimmed text of the name span, then the classes are switched.
\<close>

definition start_edit :: "row \<Rightarrow> row" where
  "start_edit r =
     r\<lparr>edit_value := trim (row_label r),
       name_hidden := True, edit_hidden := True, delete_hidden := True,
       input_hidden := False, save_hidden := False, cancel_hidden := False\<rparr>"

text \<open>The body of \<open>resetCategoryRow\<close>, \<open>resetTopicRow\<close> and \<open>resetGroupRow\<close>.\<close>

definition reset_row :: "row \<Rightarrow> row" where
  "reset_row r =
     r\<lparr>input_hidden := True, save_hidden := True, cancel_hidden := True,
       name_hidden := False, edit_hidden := False, delete_hidden := False\<rparr>"

text \<open>
  The three reset functions. The script calls them with the \<open>data-id\<close> of a button only, so
  the row exists; the handlers below check it before they call.
\<close>

definition resetCategoryRow :: "int \<Rightarrow> page \<Rightarrow> page" where
  "resetCategoryRow i s = s\<lparr>category_rows := upd_row i reset_row (category_rows s)\<rparr>"

definition resetTopicRow :: "int \<Rightarrow> page \<Rightarrow> page" where
  "resetTopicRow i s = s\<lparr>topic_rows := upd_row i reset_row (topic_rows s)\<rparr>"

definition resetGroupRow :: "int \<Rightarrow> page \<Rightarrow> page" where
  "resetGroupRow i s = s\<lparr>group_rows := upd_row i reset_row (group_rows s)\<rparr>"

subsection \<open>Edit and cancel\<close>

text \<open>
  The click handlers take the \<open>data-id\<close> of the button. Where no row carries it,
  \<open>querySelector\<close> returns \<open>null\<close> and the first access throws.
\<close>

definition category_edit_click :: "int \<Rightarrow> page \<Rightarrow> page \<times> effect list" where
  "category_edit_click i s =
     (case find_row i (category_rows s) of
        None \<Rightarrow> (s, [Uncaught TypeError])
      | Some _ \<Rightarrow> (s\<lparr>category_rows := upd_row i start_edit (category_rows s)\<rparr>, []))"

definition topic_edit_click :: "int \<Rightarrow> page \<Rightarrow> page \<times> effect list" where
  "topic_edit_click i s =
     (case find_row i (topic_rows s) of
        None \<Rightarrow> (s, [Uncaught TypeError])
      | Some _ \<Rightarrow> (s\<lparr>topic_rows := upd_row i start_edit (topic_rows s)\<rparr>, []))"

definition group_edit_click :: "int \<Rightarrow> page \<Rightarrow> page \<times> effect list" where
  "group_edit_click i s =
     (case find_row i (group_rows s) of
        None \<Rightarrow> (s, [Uncaught TypeError])
      | Some _ \<Rightarrow> (s\<lparr>group_rows := upd_row i start_edit (group_rows s)\<rparr>, []))"

definition category_cancel_click :: "int \<Rightarrow> page \<Rightarrow> page \<times> effect list" where
  "category_cancel_click i s =
     (case find_row i (category_rows s) of
        None \<Rightarrow> (s, [Uncaught TypeError])
      | Some _ \<Rightarrow> (resetCategoryRow i s, []))"

definition topic_cancel_click :: "int \<Rightarrow> page \<Rightarrow> page \<times> effect list" where
  "topic_cancel_click i s =
     (case find_row i (topic_rows s) of
        None \<Rightarrow> (s, [Uncaught TypeError])
      | Some _ \<Rightarrow> (resetTopicRow i s, []))"

definition group_cancel_click :: "int \<Rightarrow> page \<Rightarrow> page \<times> effect list" where
  "group_cancel_click i s =
     (case find_row i (group_rows s) of
        None \<Rightarrow> (s, [Uncaught TypeError])
      | Some _ \<Rightarrow> (resetGroupRow i s, []))"

text \<open>The user typing \<open>v\<close> into the edit field of a row.\<close>

definition type_into :: "string \<Rightarrow> row \<Rightarrow> row" where
  "type_into v r = r\<lparr>edit_value := v\<rparr>"

subsection \<open>Loading the lists\<close>

text \<open>
  A row as the template of \<open>loadTopics\<close> and of \<open>loadGroups\<close> renders it: the name span holds
  the name between a line break with ten spaces and a line break with eight, the edit
  field holds the name, and the field and the save and cancel buttons are hidden.
\<close>

definition render_row :: "int \<times> string \<Rightarrow> row" where
  "render_row e =
     \<lparr>rid = fst e,
      row_label = CHR 0x0A # replicate 10 (CHR 0x20) @ snd e @ CHR 0x0A # replicate 8 (CHR 0x20),
      edit_value = snd e,
      name_hidden = False, input_hidden = True, edit_hidden = False,
      save_hidden = True, cancel_hidden = True, delete_hidden = False\<rparr>"

text \<open>Whether the list request returned a body that parses as JSON.\<close>

fun body_parsed :: "listing \<Rightarrow> bool" where
  "body_parsed FetchRejected = False"
| "body_parsed BodyNotJson = False"
| "body_parsed NotAnArray = True"
| "body_parsed (Entities _) = True"

text \<open>
  \<open>loadTopics\<close>: the statements before the \<open>await\<close> give \<open>s1\<close>; those after it, which run
  only when the request returned a body that parses as JSON, give \<open>s2\<close>; then the rows are
  appended one by one. Every caller passes a number as \<open>categoryId\<close>, on which \<open>Number\<close>
  is the identity; the same holds for \<open>loadGroups\<close>.
\<close>

definition loadTopics :: "jsnum \<Rightarrow> string \<Rightarrow> listing \<Rightarrow> page \<Rightarrow> page \<times> effect list" where
  "loadTopics categoryId categoryName l s =
     (let s1 = s\<lparr>currentCategoryId := Some categoryId,
                  currentCategoryName := categoryName,
                  currentTopicId := None,
                  currentTopicName := [],
                  current_category_label := label_selected_category @ categoryName,
                  topic_create_hidden := False\<rparr>;
          s2 = s1\<lparr>topic_rows := [],
                   group_rows := [],
                   current_topic_label := msg_select_topic,
                   group_create_hidden := True\<rparr>
      in case l of
           FetchRejected \<Rightarrow> (s1, [Request (TopicsGet categoryId), Uncaught NetworkError])
         | BodyNotJson \<Rightarrow> (s1, [Request (TopicsGet categoryId), Uncaught SyntaxError])
         | NotAnArray \<Rightarrow> (s2, [Request (TopicsGet categoryId), Uncaught TypeError])
         | Entities ts \<Rightarrow>
             (s2\<lparr>topic_rows := fold (\<lambda>t rows. rows @ [render_row t]) ts (topic_rows s2)\<rparr>,
              [Request (TopicsGet categoryId)]))"

definition loadGroups :: "jsnum \<Rightarrow> string \<Rightarrow> listing \<Rightarrow> page \<Rightarrow> page \<times> effect list" where
  "loadGroups topicId topicName l s =
     (let s1 = s\<lparr>currentTopicId := Some topicId,
                  currentTopicName := topicName,
                  current_topic_label := label_selected_topic @ topicName,
                  group_create_hidden := False\<rparr>;
          s2 = s1\<lparr>group_rows := []\<rparr>
      in case l of
           FetchRejected \<Rightarrow> (s1, [Request (GroupsGet topicId), Uncaught NetworkError])
         | BodyNotJson \<Rightarrow> (s1, [Request (GroupsGet topicId), Uncaught SyntaxError])
         | NotAnArray \<Rightarrow> (s2, [Request (GroupsGet topicId), Uncaught TypeError])
         | Entities gs \<Rightarrow>
             (s2\<lparr>group_rows := fold (\<lambda>g rows. rows @ [render_row g]) gs (group_rows s2)\<rparr>,
              [Request (GroupsGet topicId)]))"

subsection \<open>Update and delete\<close>

text \<open>
  The block which each of the six update and delete handlers runs on a response, with its
  own fixed text: the body is read and parsed inside a \<open>try\<close>, then the \<open>ok\<close> flag and the
  \<open>status\<close> of the payload are tested. \<open>Some\<close> carries the effects of a handler that
  returns here; \<open>None\<close> means that the handler goes on. Testing \<open>data.status\<close>, or reading
  \<open>data.message\<close>, throws outside the \<open>try\<close> when the payload is \<open>null\<close>.
\<close>

definition api_failure :: "string \<Rightarrow> bool \<Rightarrow> json option \<Rightarrow> effect list option" where
  "api_failure fallback ok body =
     (case body of
        None \<Rightarrow> Some [ConsoleError, Alert (Some (JStr fallback))]
      | Some JNull \<Rightarrow> Some [Uncaught TypeError]
      | Some data \<Rightarrow>
          if \<not> ok \<or> get_prop data ''status'' \<noteq> Some (JStr ''ok'')
          then Some [Alert (js_or (js_or (get_prop data ''message'') (get_prop data ''detail''))
                             (Some (JStr fallback)))]
          else None)"

text \<open>
  The save handlers. Their \<open>fetch\<close> is awaited outside the \<open>try\<close>, so a rejected request
  ends the handler with an uncaught exception. The last test is
  \<open>Number(id) === currentCategoryId\<close>, on the \<open>data-id\<close> of the button.
\<close>

definition category_save_click :: "int \<Rightarrow> fetched \<Rightarrow> page \<Rightarrow> page \<times> effect list" where
  "category_save_click i res s =
     (case find_row i (category_rows s) of
        None \<Rightarrow> (s, [Uncaught TypeError])
      | Some r \<Rightarrow>
          (let name = trim (edit_value r) in
           if name = [] then (s, [Alert (Some (JStr msg_enter_category_name))])
           else (case res of
                   Rejected \<Rightarrow> (s, [Request (CategoryUpdate i name), Uncaught NetworkError])
                 | Response ok body \<Rightarrow>
                     (case api_failure msg_category_update_failed ok body of
                        Some effs \<Rightarrow> (s, Request (CategoryUpdate i name) # effs)
                      | None \<Rightarrow>
                          (let s1 = s\<lparr>category_rows :=
                                        upd_row i (\<lambda>r. r\<lparr>row_label := name\<rparr>) (category_rows s)\<rparr>;
                               s2 = resetCategoryRow i s1;
                               s3 = (if strict_eq_opt (js_Number i) (currentCategoryId s2)
                                     then s2\<lparr>currentCategoryName := name,
                                             current_category_label := label_selected_category @ name\<rparr>
                                     else s2)
                           in (s3, [Request (CategoryUpdate i name)]))))))"

definition topic_save_click :: "int \<Rightarrow> fetched \<Rightarrow> page \<Rightarrow> page \<times> effect list" where
  "topic_save_click i res s =
     (case find_row i (topic_rows s) of
        None \<Rightarrow> (s, [Uncaught TypeError])
      | Some r \<Rightarrow>
          (let name = trim (edit_value r) in
           if name = [] then (s, [Alert (Some (JStr msg_enter_topic_name))])
           else (case res of
                   Rejected \<Rightarrow> (s, [Request (TopicUpdate i name), Uncaught NetworkError])
                 | Response ok body \<Rightarrow>
                     (case api_failure msg_topic_update_failed ok body of
                        Some effs \<Rightarrow> (s, Request (TopicUpdate i name) # effs)
                      | None \<Rightarrow>
                          (let s1 = s\<lparr>topic_rows :=
                                        upd_row i (\<lambda>r. r\<lparr>row_label := name\<rparr>) (topic_rows s)\<rparr>;
                               s2 = resetTopicRow i s1;
                               s3 = (if strict_eq_opt (js_Number i) (currentTopicId s2)
                                     then s2\<lparr>currentTopicName := name,
                                             current_topic_label := label_selected_topic @ name\<rparr>
                                     else s2)
                           in (s3, [Request (TopicUpdate i name)]))))))"

definition group_save_click :: "int \<Rightarrow> fetched \<Rightarrow> page \<Rightarrow> page \<times> effect list" where
  "group_save_click i res s =
     (case find_row i (group_rows s) of
        None \<Rightarrow> (s, [Uncaught TypeError])
      | Some r \<Rightarrow>
          (let name = trim (edit_value r) in
           if name = [] then (s, [Alert (Some (JStr msg_enter_group_name))])
           else (case res of
                   Rejected \<Rightarrow> (s, [Request (GroupUpdate i name), Uncaught NetworkError])
                 | Response ok body \<Rightarrow>
                     (case api_failure msg_group_update_failed ok body of
                        Some effs \<Rightarrow> (s, Request (GroupUpdate i name) # effs)
                      | None \<Rightarrow>
                          (let s1 = s\<lparr>group_rows :=
                                        upd_row i (\<lambda>r. r\<lparr>row_label := name\<rparr>) (group_rows s)\<rparr>;
                               s2 = resetGroupRow i s1
                           in (s2, [Request (GroupUpdate i name)]))))))"

text \<open>
  The delete handlers, given the answer to \<open>confirm\<close>. Their \<open>fetch\<close> is awaited inside the
  \<open>try\<close>, so a rejected request is handled as a body that does not parse. After a topic
  or a group is deleted the owning list is loaded again, which takes the outcome of the
  list request.
\<close>

definition category_delete_click :: "int \<Rightarrow> bool \<Rightarrow> fetched \<Rightarrow> page \<Rightarrow> page \<times> effect list" where
  "category_delete_click i confirmed res s =
     (if \<not> confirmed then (s, [])
      else (case res of
              Rejected \<Rightarrow>
                (s, [Request (CategoryDelete i), ConsoleError,
                     Alert (Some (JStr msg_category_delete_failed))])
            | Response ok body \<Rightarrow>
                (case api_failure msg_category_delete_failed ok body of
                   Some effs \<Rightarrow> (s, Request (CategoryDelete i) # effs)
                 | None \<Rightarrow> (s, [Request (CategoryDelete i), Reload]))))"

definition topic_delete_click ::
  "int \<Rightarrow> bool \<Rightarrow> fetched \<Rightarrow> listing \<Rightarrow> page \<Rightarrow> page \<times> effect list" where
  "topic_delete_click i confirmed res l s =
     (if \<not> confirmed then (s, [])
      else (case res of
              Rejected \<Rightarrow>
                (s, [Request (TopicDelete i), ConsoleError,
                     Alert (Some (JStr msg_topic_delete_failed))])
            | Response ok body \<Rightarrow>
                (case api_failure msg_topic_delete_failed ok body of
                   Some effs \<Rightarrow> (s, Request (TopicDelete i) # effs)
                 | None \<Rightarrow>
                     (case currentCategoryId s of
                        None \<Rightarrow> (s, [Request (TopicDelete i)])
                      | Some c \<Rightarrow>
                          (case loadTopics c (currentCategoryName s) l s of
                             (s', effs) \<Rightarrow> (s', Request (TopicDelete i) # effs))))))"

definition group_delete_click ::
  "int \<Rightarrow> bool \<Rightarrow> fetched \<Rightarrow> listing \<Rightarrow> page \<Rightarrow> page \<times> effect list" where
  "group_delete_click i confirmed res l s =
     (if \<not> confirmed then (s, [])
      else (case res of
              Rejected \<Rightarrow>
                (s, [Request (GroupDelete i), ConsoleError,
                     Alert (Some (JStr msg_group_delete_failed))])
            | Response ok body \<Rightarrow>
                (case api_failure msg_group_delete_failed ok body of
                   Some effs \<Rightarrow> (s, Request (GroupDelete i) # effs)
                 | None \<Rightarrow>
                     (case currentTopicId s of
                        None \<Rightarrow> (s, [Request (GroupDelete i)])
                      | Some t \<Rightarrow>
                          (case loadGroups t (currentTopicName s) l s of
                             (s', effs) \<Rightarrow> (s', Request (GroupDelete i) # effs))))))"

subsection \<open>Create\<close>

text \<open>
  \<open>handleCreateCategory\<close> awaits the request and reloads; it reads neither the \<open>ok\<close> flag nor
  the body.
\<close>

definition handleCreateCategory :: "fetched \<Rightarrow> page \<Rightarrow> page \<times> effect list" where
  "handleCreateCategory res s =
     (let name = trim (new_category s) in
      if name = [] then (s, [Alert (Some (JStr msg_category_name_required))])
      else (case res of
              Rejected \<Rightarrow> (s, [Request (CategoryCreate name [] []), Uncaught NetworkError])
            | Response ok body \<Rightarrow> (s, [Request (CategoryCreate name [] []), Reload])))"

text \<open>
  \<open>handleCreateTopic\<close> and \<open>handleCreateGroup\<close> read the body with \<open>res.json()\<close> outside any
  \<open>try\<close> and test its \<open>status\<close> only.
\<close>

definition handleCreateTopic :: "fetched \<Rightarrow> listing \<Rightarrow> page \<Rightarrow> page \<times> effect list" where
  "handleCreateTopic res l s =
     (case currentCategoryId s of
        None \<Rightarrow> (s, [Alert (Some (JStr msg_select_category_first))])
      | Some c \<Rightarrow>
          (let name = trim (new_topic s) in
           if name = [] then (s, [Alert (Some (JStr msg_enter_topic_name))])
           else (case res of
                   Rejected \<Rightarrow> (s, [Request (TopicCreate c name), Uncaught NetworkError])
                 | Response ok body \<Rightarrow>
                     (case body of
                        None \<Rightarrow> (s, [Request (TopicCreate c name), Uncaught SyntaxError])
                      | Some JNull \<Rightarrow> (s, [Request (TopicCreate c name), Uncaught TypeError])
                      | Some json \<Rightarrow>
                          if get_prop json ''status'' = Some (JStr ''ok'')
                          then (case loadTopics c (currentCategoryName s) l (s\<lparr>new_topic := []\<rparr>) of
                                  (s', effs) \<Rightarrow> (s', Request (TopicCreate c name) # effs))
                          else (s, [Request (TopicCreate c name),
                                    Alert (js_or (get_prop json ''message'')
                                             (Some (JStr msg_topic_create_failed)))])))))"

definition handleCreateGroup :: "fetched \<Rightarrow> listing \<Rightarrow> page \<Rightarrow> page \<times> effect list" where
  "handleCreateGroup res l s =
     (case currentTopicId s of
        None \<Rightarrow> (s, [Alert (Some (JStr msg_select_topic_first))])
      | Some t \<Rightarrow>
          (let name = trim (new_group s) in
           if name = [] then (s, [Alert (Some (JStr msg_enter_group_name))])
           else (case res of
                   Rejected \<Rightarrow> (s, [Request (GroupCreate t name), Uncaught NetworkError])
                 | Response ok body \<Rightarrow>
                     (case body of
                        None \<Rightarrow> (s, [Request (GroupCreate t name), Uncaught SyntaxError])
                      | Some JNull \<Rightarrow> (s, [Request (GroupCreate t name), Uncaught TypeError])
                      | Some json \<Rightarrow>
                          if get_prop json ''status'' = Some (JStr ''ok'')
                          then (case loadGroups t (currentTopicName s) l (s\<lparr>new_group := []\<rparr>) of
                                  (s', effs) \<Rightarrow> (s', Request (GroupCreate t name) # effs))
                          else (s, [Request (GroupCreate t name),
                                    Alert (js_or (get_prop json ''message'')
                                             (Some (JStr msg_group_create_failed)))])))))"

section \<open>Example pages\<close>

text \<open>The toggle of post 5, public, as the initialisation leaves it, and its two buttons.\<close>

definition public_btn :: status_btn where
  "public_btn = \<lparr>btn_status = ''public'', is_active = True\<rparr>"

definition private_btn :: status_btn where
  "private_btn = \<lparr>btn_status = ''private'', is_active = False\<rparr>"

definition example_toggle :: toggle where
  "example_toggle = \<lparr>postId = ''5'', current = Num 0, btns = [public_btn, private_btn]\<rparr>"

text \<open>
  A form with two categories, the second one selected, three topics and three groups; and
  the same form with its category control on a category that has no topic.
\<close>

definition example_category_select :: select_el where
  "example_category_select =
     \<lparr>opts = [(Num 1, ''A''), (Num 2, ''B''), (Num 3, ''C'')], selectedIndex = Some 1, listbox = False\<rparr>"

definition example_topic_select :: select_el where
  "example_topic_select =
     \<lparr>opts = [(Num 10, ''T1''), (Num 12, ''T3'')], selectedIndex = Some 1, listbox = False\<rparr>"

definition example_group_select :: select_el where
  "example_group_select = \<lparr>opts = [(Num 7, ''stale'')], selectedIndex = Some 0, listbox = False\<rparr>"

definition example_form :: form where
  "example_form =
     \<lparr>categorySelect = Some example_category_select,
      topicSelect = Some example_topic_select,
      groupSelect = Some example_group_select,
      topics = [\<lparr>t_id = 10, t_name = ''T1'', t_category_id = 2\<rparr>,
                \<lparr>t_id = 11, t_name = ''T2'', t_category_id = 1\<rparr>,
                \<lparr>t_id = 12, t_name = ''T3'', t_category_id = 2\<rparr>],
      groups = [\<lparr>g_id = 100, g_name = ''G1'', g_topic_id = 10\<rparr>,
                \<lparr>g_id = 101, g_name = ''G2'', g_topic_id = 12\<rparr>,
                \<lparr>g_id = 102, g_name = ''G3'', g_topic_id = 10\<rparr>]\<rparr>"

definition example_form_empty_category :: form where
  "example_form_empty_category =
     example_form\<lparr>categorySelect := Some (example_category_select\<lparr>selectedIndex := Some 2\<rparr>)\<rparr>"

text \<open>The form on a page that has no \<open>#topic_select\<close>.\<close>

definition example_form_no_topic_select :: form where
  "example_form_no_topic_select = example_form\<lparr>topicSelect := None\<rparr>"

text \<open>
  A page with two category rows whose \<open>data-id\<close> attributes, \<open>2 ^ 53\<close> and \<open>2 ^ 53 + 1\<close>,
  read as the same number; the first one is selected, the second one is open for editing.
\<close>

definition example_page_large_ids :: page where
  "example_page_large_ids =
     \<lparr>currentCategoryId = Some (Num 9007199254740992),
      currentCategoryName = ''A'',
      currentTopicId = None,
      currentTopicName = '''',
      category_rows =
        [\<lparr>rid = 9007199254740992, row_label = ''A'', edit_value = '''',
          name_hidden = False, input_hidden = True, edit_hidden = False,
          save_hidden = True, cancel_hidden = True, delete_hidden = False\<rparr>,
         \<lparr>rid = 9007199254740993, row_label = ''B'', edit_value = ''B2'',
          name_hidden = True, input_hidden = False, edit_hidden = True,
          save_hidden = False, cancel_hidden = False, delete_hidden = True\<rparr>],
      topic_rows = [],
      group_rows = [],
      current_category_label = ''Selected category: A'',
      current_topic_label = ''Please select a topic'',
      topic_create_hidden = False,
      group_create_hidden = True,
      new_category = '''',
      new_topic = '''',
      new_group = ''''\<rparr>"

text \<open>
  A management page: two categories, the first one selected with its single topic listed
  and selected, and one group. The second category is open for editing with a new name
  typed in, and the field of the topic row holds a typed name as well.
\<close>

definition example_row_A :: row where
  "example_row_A =
     \<lparr>rid = 1, row_label = ''A'', edit_value = '''',
      name_hidden = False, input_hidden = True, edit_hidden = False,
      save_hidden = True, cancel_hidden = True, delete_hidden = False\<rparr>"

definition example_row_B :: row where
  "example_row_B =
     \<lparr>rid = 2, row_label = ''B'', edit_value = ''B2 '',
      name_hidden = True, input_hidden = False, edit_hidden = True,
      save_hidden = False, cancel_hidden = False, delete_hidden = True\<rparr>"

definition example_row_T :: row where
  "example_row_T = type_into '' T9'' (render_row (10, ''T1''))"

definition example_page :: page where
  "example_page =
     \<lparr>currentCategoryId = Some (Num 1),
      currentCategoryName = ''A'',
      currentTopicId = Some (Num 10),
      currentTopicName = ''T1'',
      category_rows = [example_row_A, example_row_B],
      topic_rows = [example_row_T],
      group_rows = [render_row (100, ''G1'')],
      current_category_label = ''Selected category: A'',
      current_topic_label = ''Selected topic: T1'',
      topic_create_hidden = False,
      group_create_hidden = False,
      new_category = '' News '',
      new_topic = ''T2'',
      new_group = ''G2''\<rparr>"

section \<open>Properties of the status toggle\<close>

text \<open>
  C4. Clicking the button whose target state is the toggle's current state does nothing:
  the handler stops before the request, no effect is caused and the toggle (its stored
  state and the active flags of its buttons) is returned as it was, whatever the outcome
  of a request would have been.
\<close>

theorem status_click_same_state_noop:
  assumes "strict_eq (current t) (btnStatus b)"
  shows "status_click_start t b = None \<and> status_click t b r = (t, [])"
  using assms by (simp add: status_click_def status_click_start_def Let_def)

theorem status_click_same_state_noop_witness:
  "strict_eq (current example_toggle) (btnStatus public_btn)
   \<and> status_click example_toggle public_btn (Response False None) = (example_toggle, [])"
proof -
  have h: "strict_eq (current example_toggle) (btnStatus public_btn)"
    by (simp add: example_toggle_def public_btn_def btnStatus_def STATUS_PUBLIC_def)
  from status_click_same_state_noop [OF h, of "Response False None"] h
  show ?thesis by simp
qed

lemma btnStatus_is_active_update [simp]: "btnStatus (b\<lparr>is_active := a\<rparr>) = btnStatus b"
  by (simp add: btnStatus_def)

lemma applyActiveState_twice:
  "applyActiveState (applyActiveState t a) c = applyActiveState t c"
  by (simp add: applyActiveState_def comp_def)

lemma initialised_applyActiveState: "initialised (applyActiveState t c)"
  by (simp add: initialised_def applyActiveState_def comp_def)

lemma initialised_status_click:
  assumes "initialised t"
  shows "initialised (fst (status_click t b res))"
  using assms
  by (auto simp: status_click_def status_click_start_def Let_def initialised_applyActiveState
      split: option.splits prod.splits sum.splits)

lemma status_click_failure:
  assumes "\<not> strict_eq (current t) (btnStatus b)"
  shows "status_click t b (Response False body) =
           (applyActiveState t (current t),
            [Request (PostStatus (postId t) (status_target (btnStatus b))),
             (case body of
                None \<Rightarrow> AlertExn SyntaxError
              | Some JNull \<Rightarrow> AlertExn TypeError
              | Some data \<Rightarrow>
                  Alert (js_or (get_prop data ''message'') (Some (JStr msg_update_failed))))])"
  using assms
  by (simp add: status_click_def status_click_start_def updateStatus_def applyActiveState_twice
      Let_def split: option.splits json.splits)

text \<open>
  C3, as the handler implements it. A click whose target differs from the current state
  first shows the target state (the stored state is the target and exactly the buttons of
  the target are active) and sends the target as a string. When the response is not \<open>ok\<close>,
  the toggle is put back as it was and one alert follows the request: the \<open>message\<close> of the
  body when the body parses as JSON other than \<open>null\<close> and that message is truthy, the
  fixed text when the body parses as such without a truthy message, and otherwise the text
  of the exception that reading the body raised.
\<close>

theorem status_click_failure_reverts:
  assumes "\<not> strict_eq (current t) (btnStatus b)" and "initialised t"
  shows "status_click_start t b = Some (current t, applyActiveState t (btnStatus b))
         \<and> current (applyActiveState t (btnStatus b)) = btnStatus b
         \<and> (\<forall>c \<in> set (btns (applyActiveState t (btnStatus b))).
               is_active c = strict_eq (btnStatus c) (btnStatus b))
         \<and> fst (status_click t b (Response False body)) = t
         \<and> (body = None \<longrightarrow>
               snd (status_click t b (Response False body)) =
                 [Request (PostStatus (postId t) (status_target (btnStatus b))),
                  AlertExn SyntaxError])
         \<and> (body = Some JNull \<longrightarrow>
               snd (status_click t b (Response False body)) =
                 [Request (PostStatus (postId t) (status_target (btnStatus b))),
                  AlertExn TypeError])
         \<and> (body = Some data \<and> data \<noteq> JNull \<longrightarrow>
               snd (status_click t b (Response False body)) =
                 [Request (PostStatus (postId t) (status_target (btnStatus b))),
                  Alert (if truthy (get_prop data ''message'') then get_prop data ''message''
                         else Some (JStr msg_update_failed))])"
proof -
  have start: "status_click_start t b = Some (current t, applyActiveState t (btnStatus b))"
    using assms(1) by (simp add: status_click_start_def Let_def)
  have shown: "\<forall>c \<in> set (btns (applyActiveState t (btnStatus b))).
               is_active c = strict_eq (btnStatus c) (btnStatus b)"
    by (auto simp: applyActiveState_def)
  have reverted: "fst (status_click t b (Response False body)) = t"
    using assms(2) by (simp add: status_click_failure [OF assms(1)] initialised_def)
  have e1: "body = None \<longrightarrow> snd (status_click t b (Response False body)) =
                 [Request (PostStatus (postId t) (status_target (btnStatus b))),
                  AlertExn SyntaxError]"
    by (simp add: status_click_failure [OF assms(1)])
  have e2: "body = Some JNull \<longrightarrow> snd (status_click t b (Response False body)) =
                 [Request (PostStatus (postId t) (status_target (btnStatus b))),
                  AlertExn TypeError]"
    by (simp add: status_click_failure [OF assms(1)])
  have e3: "body = Some data \<and> data \<noteq> JNull \<longrightarrow>
               snd (status_click t b (Response False body)) =
                 [Request (PostStatus (postId t) (status_target (btnStatus b))),
                  Alert (if truthy (get_prop data ''message'') then get_prop data ''message''
                         else Some (JStr msg_update_failed))]"
    by (cases data) (simp_all add: status_click_failure [OF assms(1)] js_or_def)
  show ?thesis
    using start shown reverted e1 e2 e3 by (simp add: applyActiveState_def)
qed

theorem status_click_failure_reverts_witness:
  "\<not> strict_eq (current example_toggle) (btnStatus private_btn)
   \<and> initialised example_toggle
   \<and> status_click_start example_toggle private_btn =
       Some (Num 0,
             \<lparr>postId = ''5'', current = Num 1,
              btns = [public_btn\<lparr>is_active := False\<rparr>, private_btn\<lparr>is_active := True\<rparr>]\<rparr>)
   \<and> status_click example_toggle private_btn
         (Response False (Some (JObj [(''message'', JStr ''locked'')])))
       = (example_toggle, [Request (PostStatus ''5'' ''private''), Alert (Some (JStr ''locked''))])
   \<and> status_click example_toggle private_btn (Response False (Some (JObj [])))
       = (example_toggle, [Request (PostStatus ''5'' ''private''), Alert (Some (JStr msg_update_failed))])"
proof -
  have h1: "\<not> strict_eq (current example_toggle) (btnStatus private_btn)"
    by (simp add: example_toggle_def private_btn_def btnStatus_def STATUS_PRIVATE_def)
  have h2: "initialised example_toggle"
    by (simp add: initialised_def applyActiveState_def example_toggle_def private_btn_def
        public_btn_def btnStatus_def STATUS_PRIVATE_def STATUS_PUBLIC_def)
  have v: "btnStatus private_btn = Num 1" "status_target (Num 1) = ''private''"
    "postId example_toggle = ''5''" "current example_toggle = Num 0"
    "applyActiveState example_toggle (Num 1) = \<lparr>postId = ''5'', current = Num 1,
              btns = [public_btn\<lparr>is_active := False\<rparr>, private_btn\<lparr>is_active := True\<rparr>]\<rparr>"
    by (simp_all add: example_toggle_def private_btn_def public_btn_def btnStatus_def
        STATUS_PRIVATE_def STATUS_PUBLIC_def status_target_def applyActiveState_def)
  from status_click_failure_reverts [OF h1 h2,
      of "Some (JObj [(''message'', JStr ''locked'')])" "JObj [(''message'', JStr ''locked'')]"]
  have a: "status_click_start example_toggle private_btn =
       Some (Num 0,
             \<lparr>postId = ''5'', current = Num 1,
              btns = [public_btn\<lparr>is_active := False\<rparr>, private_btn\<lparr>is_active := True\<rparr>]\<rparr>)"
    and b: "status_click example_toggle private_btn
         (Response False (Some (JObj [(''message'', JStr ''locked'')])))
       = (example_toggle, [Request (PostStatus ''5'' ''private''), Alert (Some (JStr ''locked''))])"
    by (simp_all add: v prod_eq_iff)
  from status_click_failure_reverts [OF h1 h2, of "Some (JObj [])" "JObj []"]
  have c: "status_click example_toggle private_btn (Response False (Some (JObj [])))
       = (example_toggle, [Request (PostStatus ''5'' ''private''), Alert (Some (JStr msg_update_failed))])"
    by (simp add: v prod_eq_iff)
  show ?thesis using h1 h2 a b c by simp
qed

text \<open>
  The claim as written fails where the body of the failing response is not JSON, as an
  HTML error page is: the toggle is put back, but what is shown is the text of the parse
  error, neither a message of the server nor the fixed text.
\<close>

theorem status_click_failure_counterexample:
  "status_click example_toggle private_btn (Response False None)
     = (example_toggle, [Request (PostStatus ''5'' ''private''), AlertExn SyntaxError])"
  by (simp add: status_click_def status_click_start_def updateStatus_def applyActiveState_def
      Let_def example_toggle_def private_btn_def public_btn_def btnStatus_def STATUS_PRIVATE_def
      STATUS_PUBLIC_def status_target_def)

section \<open>Properties of the static hierarchy filter\<close>

lemma opts_fold_appendChild:
  "opts (fold (\<lambda>x el. appendChild el (h x)) xs el) = opts el @ map h xs"
  by (induction xs arbitrary: el) (simp_all add: appendChild_def)

lemma strict_eq_Num_iff: "strict_eq (Num a) v = (v = Num a)"
  by (cases v) auto

lemma filter_strict_eq_NaN: "filter (\<lambda>x. strict_eq (Num (h x)) NaN) xs = []"
  by (induction xs) simp_all

lemma topicSelect_updateGroups: "topicSelect (updateGroups f) = topicSelect f"
  by (simp add: updateGroups_def Let_def split: option.splits)

lemma updateGroups_opts:
  assumes "topicSelect f = Some ts" and "groupSelect f = Some gs"
  shows "map_option opts (groupSelect (updateGroups f)) =
           Some (map group_option
                   (filter (\<lambda>g. strict_eq (Num (g_topic_id g)) (parseInt_value ts)) (groups f)))"
  using assms by (simp add: updateGroups_def Let_def opts_fold_appendChild clear_options_def)

lemma updateTopics_unfold:
  assumes "categorySelect f = Some cs" and "topicSelect f = Some ts"
  shows "updateTopics f =
           updateGroups
             (f\<lparr>topicSelect :=
                  Some (fold (\<lambda>t el. appendChild el (topic_option t))
                          (filter (\<lambda>t. strict_eq (Num (t_category_id t)) (parseInt_value cs))
                             (topics f))
                          (clear_options ts))\<rparr>)"
  using assms by (simp add: updateTopics_def Let_def)

text \<open>
  C5. When the category control reads as the id \<open>c\<close>, the category-change handler leaves in
  the topic control one option per topic of the preloaded array whose \<open>category_id\<close> is
  \<open>c\<close>, and no other, in the order of the array. In the same way, when the topic control
  reads as the id \<open>k\<close>, the topic-change handler leaves in the group control one option per
  group whose \<open>topic_id\<close> is \<open>k\<close>, in the order of the array. Both handlers are functions of
  the form alone: they read the preloaded arrays and issue no request.
\<close>

theorem static_filter_exact:
  "(categorySelect f = Some cs \<and> topicSelect f = Some ts \<and> parseInt_value cs = Num c \<longrightarrow>
      map_option opts (topicSelect (updateTopics f)) =
        Some (map topic_option (filter (\<lambda>t. t_category_id t = c) (topics f))))
   \<and> (topicSelect f = Some ts \<and> groupSelect f = Some gs \<and> parseInt_value ts = Num k \<longrightarrow>
      map_option opts (groupSelect (updateGroups f)) =
        Some (map group_option (filter (\<lambda>g. g_topic_id g = k) (groups f))))"
proof (intro conjI impI)
  assume a: "categorySelect f = Some cs \<and> topicSelect f = Some ts \<and> parseInt_value cs = Num c"
  then have "updateTopics f =
      updateGroups (f\<lparr>topicSelect :=
         Some (fold (\<lambda>t el. appendChild el (topic_option t))
                 (filter (\<lambda>t. strict_eq (Num (t_category_id t)) (Num c)) (topics f))
                 (clear_options ts))\<rparr>)"
    using updateTopics_unfold [of f cs ts] by simp
  then show "map_option opts (topicSelect (updateTopics f)) =
        Some (map topic_option (filter (\<lambda>t. t_category_id t = c) (topics f)))"
    by (simp add: topicSelect_updateGroups opts_fold_appendChild clear_options_def)
next
  assume a: "topicSelect f = Some ts \<and> groupSelect f = Some gs \<and> parseInt_value ts = Num k"
  then show "map_option opts (groupSelect (updateGroups f)) =
        Some (map group_option (filter (\<lambda>g. g_topic_id g = k) (groups f)))"
    using updateGroups_opts [of f ts gs] by simp
qed

theorem static_filter_exact_witness:
  "categorySelect example_form = Some example_category_select
   \<and> topicSelect example_form = Some example_topic_select
   \<and> groupSelect example_form = Some example_group_select
   \<and> parseInt_value example_category_select = Num 2
   \<and> parseInt_value example_topic_select = Num 12
   \<and> map_option opts (topicSelect (updateTopics example_form)) = Some [(Num 10, ''T1''), (Num 12, ''T3'')]
   \<and> map_option opts (groupSelect (updateGroups example_form)) = Some [(Num 101, ''G2'')]"
  using static_filter_exact [of example_form example_category_select example_topic_select 2
      example_group_select 12]
  by (simp add: example_form_def example_category_select_def example_topic_select_def
      example_group_select_def parseInt_value_def topic_option_def group_option_def
      parseInt_String_def)

lemma fold_appendChild:
  "fold (\<lambda>x el. appendChild el (h x)) xs el =
     el\<lparr>opts := opts el @ map h xs,
        selectedIndex :=
          (if listbox el \<or> xs = [] then selectedIndex el
           else (case selectedIndex el of None \<Rightarrow> Some 0 | Some i \<Rightarrow> Some i))\<rparr>"
  by (induction xs arbitrary: el) (auto simp: appendChild_def split: option.splits)

lemma repopulate:
  "fold (\<lambda>x el. appendChild el (h x)) xs (clear_options el) =
     el\<lparr>opts := map h xs,
        selectedIndex := (if listbox el \<or> xs = [] then None else Some 0)\<rparr>"
  by (simp add: fold_appendChild clear_options_def)

text \<open>
  C10, as the two handlers implement it. When the category and the topic control are both
  present, the category-change handler replaces the options of the topic control by those
  of the topics of the selected category, in order, and then runs the topic-change handler
  on that form. The repopulated topic control reads as \<open>NaN\<close> when it has no option or is
  a list box, and otherwise as what \<open>parseInt\<close> reads from the id of the first topic. When
  the group control is present too, its options are replaced by those of the groups whose
  \<open>topic_id\<close> is that number, so none of its former options is left; in particular, when
  the selected category has no topic, the topic control ends with no option, reads as
  \<open>NaN\<close>, and the group control ends with no option. When the category control or the
  topic control is missing, the handler returns at once and the form, with the options of
  its group control, is left as it was.
\<close>

theorem category_change_repopulates:
  "(categorySelect f = Some cs \<and> topicSelect f = Some ts \<longrightarrow>
      (let filteredTopics =
             filter (\<lambda>t. strict_eq (Num (t_category_id t)) (parseInt_value cs)) (topics f);
           ts' = ts\<lparr>opts := map topic_option filteredTopics,
                    selectedIndex := (if listbox ts \<or> filteredTopics = [] then None else Some 0)\<rparr>;
           selectedTopic =
             (case filteredTopics of
                [] \<Rightarrow> NaN
              | t # _ \<Rightarrow> if listbox ts then NaN else parseInt_String (t_id t));
           filteredGroups =
             filter (\<lambda>g. strict_eq (Num (g_topic_id g)) selectedTopic) (groups f)
       in updateTopics f = updateGroups (f\<lparr>topicSelect := Some ts'\<rparr>)
          \<and> topicSelect (updateTopics f) = Some ts'
          \<and> parseInt_value ts' = selectedTopic
          \<and> (groupSelect f = None \<longrightarrow> updateTopics f = f\<lparr>topicSelect := Some ts'\<rparr>)
          \<and> (groupSelect f = Some gs \<longrightarrow>
                updateTopics f =
                  f\<lparr>topicSelect := Some ts',
                    groupSelect :=
                      Some (gs\<lparr>opts := map group_option filteredGroups,
                               selectedIndex :=
                                 (if listbox gs \<or> filteredGroups = [] then None else Some 0)\<rparr>)\<rparr>)
          \<and> (filteredTopics = [] \<longrightarrow>
                opts ts' = [] \<and> selectedTopic = NaN \<and> filteredGroups = [])))
   \<and> (categorySelect f = None \<or> topicSelect f = None \<longrightarrow> updateTopics f = f)"
proof (intro conjI impI)
  assume a: "categorySelect f = Some cs \<and> topicSelect f = Some ts"
  define filteredTopics where
    "filteredTopics = filter (\<lambda>t. strict_eq (Num (t_category_id t)) (parseInt_value cs)) (topics f)"
  define ts' where
    "ts' = ts\<lparr>opts := map topic_option filteredTopics,
              selectedIndex := (if listbox ts \<or> filteredTopics = [] then None else Some 0)\<rparr>"
  define selectedTopic where
    "selectedTopic =
       (case filteredTopics of
          [] \<Rightarrow> NaN
        | t # _ \<Rightarrow> if listbox ts then NaN else parseInt_String (t_id t))"
  define filteredGroups where
    "filteredGroups = filter (\<lambda>g. strict_eq (Num (g_topic_id g)) selectedTopic) (groups f)"
  have u: "updateTopics f = updateGroups (f\<lparr>topicSelect := Some ts'\<rparr>)"
    using a updateTopics_unfold [of f cs ts]
    by (simp add: repopulate ts'_def filteredTopics_def)
  have t: "topicSelect (updateTopics f) = Some ts'"
    by (simp add: u topicSelect_updateGroups)
  have v: "parseInt_value ts' = selectedTopic"
    by (cases filteredTopics)
       (simp_all add: parseInt_value_def ts'_def selectedTopic_def topic_option_def)
  have n: "updateTopics f = f\<lparr>topicSelect := Some ts'\<rparr>" if "groupSelect f = None"
    using that by (simp add: u updateGroups_def)
  have g: "updateTopics f =
             f\<lparr>topicSelect := Some ts',
               groupSelect :=
                 Some (gs\<lparr>opts := map group_option filteredGroups,
                          selectedIndex :=
                            (if listbox gs \<or> filteredGroups = [] then None else Some 0)\<rparr>)\<rparr>"
    if "groupSelect f = Some gs"
    using that by (simp add: u updateGroups_def Let_def repopulate v filteredGroups_def)
  have e: "opts ts' = [] \<and> selectedTopic = NaN \<and> filteredGroups = []"
    if "filteredTopics = []"
    using that
    by (simp add: ts'_def selectedTopic_def filteredGroups_def filter_strict_eq_NaN)
  show "let filteredTopics =
             filter (\<lambda>t. strict_eq (Num (t_category_id t)) (parseInt_value cs)) (topics f);
           ts' = ts\<lparr>opts := map topic_option filteredTopics,
                    selectedIndex := (if listbox ts \<or> filteredTopics = [] then None else Some 0)\<rparr>;
           selectedTopic =
             (case filteredTopics of
                [] \<Rightarrow> NaN
              | t # _ \<Rightarrow> if listbox ts then NaN else parseInt_String (t_id t));
           filteredGroups =
             filter (\<lambda>g. strict_eq (Num (g_topic_id g)) selectedTopic) (groups f)
       in updateTopics f = updateGroups (f\<lparr>topicSelect := Some ts'\<rparr>)
          \<and> topicSelect (updateTopics f) = Some ts'
          \<and> parseInt_value ts' = selectedTopic
          \<and> (groupSelect f = None \<longrightarrow> updateTopics f = f\<lparr>topicSelect := Some ts'\<rparr>)
          \<and> (groupSelect f = Some gs \<longrightarrow>
                updateTopics f =
                  f\<lparr>topicSelect := Some ts',
                    groupSelect :=
                      Some (gs\<lparr>opts := map group_option filteredGroups,
                               selectedIndex :=
                                 (if listbox gs \<or> filteredGroups = [] then None else Some 0)\<rparr>)\<rparr>)
          \<and> (filteredTopics = [] \<longrightarrow>
                opts ts' = [] \<and> selectedTopic = NaN \<and> filteredGroups = [])"
    unfolding Let_def
    using u t v n g e
    unfolding ts'_def selectedTopic_def filteredTopics_def filteredGroups_def
    by blast
next
  assume "categorySelect f = None \<or> topicSelect f = None"
  then show "updateTopics f = f"
    by (auto simp: updateTopics_def split: option.splits)
qed

theorem category_change_repopulates_witness:
  "categorySelect example_form = Some example_category_select
   \<and> topicSelect example_form = Some example_topic_select
   \<and> groupSelect example_form = Some example_group_select
   \<and> topicSelect (updateTopics example_form) =
       Some \<lparr>opts = [(Num 10, ''T1''), (Num 12, ''T3'')], selectedIndex = Some 0, listbox = False\<rparr>
   \<and> groupSelect (updateTopics example_form) =
       Some \<lparr>opts = [(Num 100, ''G1''), (Num 102, ''G3'')], selectedIndex = Some 0, listbox = False\<rparr>
   \<and> categorySelect example_form_empty_category =
       Some (example_category_select\<lparr>selectedIndex := Some 2\<rparr>)
   \<and> topicSelect example_form_empty_category = Some example_topic_select
   \<and> groupSelect example_form_empty_category = Some example_group_select
   \<and> map_option opts (topicSelect (updateTopics example_form_empty_category)) = Some []
   \<and> map_option opts (groupSelect (updateTopics example_form_empty_category)) = Some []
   \<and> topicSelect example_form_no_topic_select = None
   \<and> updateTopics example_form_no_topic_select = example_form_no_topic_select"
proof -
  have h: "categorySelect example_form = Some example_category_select
           \<and> topicSelect example_form = Some example_topic_select
           \<and> groupSelect example_form = Some example_group_select"
    by (simp add: example_form_def)
  have h': "categorySelect example_form_empty_category =
              Some (example_category_select\<lparr>selectedIndex := Some 2\<rparr>)
            \<and> topicSelect example_form_empty_category = Some example_topic_select
            \<and> groupSelect example_form_empty_category = Some example_group_select"
    by (simp add: example_form_empty_category_def example_form_def)
  have h'': "topicSelect example_form_no_topic_select = None"
    by (simp add: example_form_no_topic_select_def)
  have f: "filter (\<lambda>t. strict_eq (Num (t_category_id t)) (parseInt_value example_category_select))
             (topics example_form) =
           [\<lparr>t_id = 10, t_name = ''T1'', t_category_id = 2\<rparr>,
            \<lparr>t_id = 12, t_name = ''T3'', t_category_id = 2\<rparr>]"
    by (simp add: example_form_def example_category_select_def parseInt_value_def)
  have f': "filter (\<lambda>t. strict_eq (Num (t_category_id t))
                 (parseInt_value (example_category_select\<lparr>selectedIndex := Some 2\<rparr>)))
        (topics example_form_empty_category) = []"
    by (simp add: example_form_empty_category_def example_form_def example_category_select_def
        parseInt_value_def)
  have p: "parseInt_String 10 = Num 10" "parseInt_String 12 = Num 12"
    "parseInt_String 100 = Num 100" "parseInt_String 102 = Num 102"
    by (simp_all add: parseInt_String_def)
  have g: "groups example_form =
             [\<lparr>g_id = 100, g_name = ''G1'', g_topic_id = 10\<rparr>,
              \<lparr>g_id = 101, g_name = ''G2'', g_topic_id = 12\<rparr>,
              \<lparr>g_id = 102, g_name = ''G3'', g_topic_id = 10\<rparr>]"
    by (simp add: example_form_def)
  have hc: "categorySelect example_form = Some example_category_select
            \<and> topicSelect example_form = Some example_topic_select"
    using h by simp
  have hc': "categorySelect example_form_empty_category =
               Some (example_category_select\<lparr>selectedIndex := Some 2\<rparr>)
             \<and> topicSelect example_form_empty_category = Some example_topic_select"
    using h' by simp
  note r = category_change_repopulates [of example_form example_category_select
      example_topic_select example_group_select, unfolded Let_def,
      THEN conjunct1, THEN mp, OF hc, THEN conjunct2]
  note r' = category_change_repopulates [of example_form_empty_category
      "example_category_select\<lparr>selectedIndex := Some 2\<rparr>" example_topic_select
      example_group_select, unfolded Let_def,
      THEN conjunct1, THEN mp, OF hc', THEN conjunct2]
  from r h
  have 1: "topicSelect (updateTopics example_form) =
       Some \<lparr>opts = [(Num 10, ''T1''), (Num 12, ''T3'')], selectedIndex = Some 0, listbox = False\<rparr>"
    and 2: "groupSelect (updateTopics example_form) =
       Some \<lparr>opts = [(Num 100, ''G1''), (Num 102, ''G3'')], selectedIndex = Some 0, listbox = False\<rparr>"
    by (simp_all add: Let_def f g p topic_option_def group_option_def example_topic_select_def
        example_group_select_def)
  from r' h'
  have 3: "map_option opts (topicSelect (updateTopics example_form_empty_category)) = Some []"
    and 4: "map_option opts (groupSelect (updateTopics example_form_empty_category)) = Some []"
    by (simp_all add: Let_def f' filter_strict_eq_NaN)
  from category_change_repopulates [of example_form_no_topic_select] h''
  have 5: "updateTopics example_form_no_topic_select = example_form_no_topic_select"
    by simp
  show ?thesis
    using h h' h'' 1 2 3 4 5 by simp
qed

text \<open>
  The claim as written fails on a page that has the category and the group control but no
  topic control: the category-change handler returns before it calls the topic-change
  handler, and the former option of the group control is still there.
\<close>

theorem category_change_stale_counterexample:
  "categorySelect example_form_no_topic_select = Some example_category_select
   \<and> updateTopics example_form_no_topic_select = example_form_no_topic_select
   \<and> map_option opts (groupSelect (updateTopics example_form_no_topic_select))
       = Some [(Num 7, ''stale'')]"
  by (simp add: updateTopics_def example_form_no_topic_select_def example_form_def
      example_group_select_def)

section \<open>Properties of the category management page\<close>

subsection \<open>Rows\<close>

lemma find_row_upd_row:
  assumes "find_row i rows = Some r" and "rid (f r) = i"
  shows "find_row i (upd_row i f rows) = Some (f r)"
  using assms by (induction rows) (auto simp: find_row_def split: if_splits)

lemma upd_row_cong:
  assumes "find_row i rows = Some r" and "f r = g r"
  shows "upd_row i f rows = upd_row i g rows"
  using assms by (induction rows) (auto simp: find_row_def split: if_splits)

lemma upd_row_comp:
  assumes "\<And>r. rid (g r) = rid r"
  shows "upd_row i f (upd_row i g rows) = upd_row i (\<lambda>r. f (g r)) rows"
  using assms by (induction rows) auto

lemma find_row_rid: "find_row i rows = Some r \<Longrightarrow> rid r = i"
  by (induction rows) (auto simp: find_row_def split: if_splits)

lemma rid_start_edit [simp]: "rid (start_edit r) = rid r"
  by (simp add: start_edit_def)

lemma rid_reset_row [simp]: "rid (reset_row r) = rid r"
  by (simp add: reset_row_def)

lemma rid_type_into [simp]: "rid (type_into v r) = rid r"
  by (simp add: type_into_def)

lemma editing_start_edit: "editing (start_edit r)"
  by (simp add: editing_def start_edit_def)

lemma viewing_reset_row: "viewing (reset_row r)"
  by (simp add: viewing_def reset_row_def)

lemma reset_row_after_edit:
  assumes "viewing r"
  shows "reset_row (type_into v (start_edit r)) = r\<lparr>edit_value := v\<rparr>"
  using assms by (simp add: viewing_def reset_row_def type_into_def start_edit_def)

lemma start_edit_forgets_edit_value: "start_edit (r\<lparr>edit_value := v\<rparr>) = start_edit r"
  by (simp add: start_edit_def)

text \<open>
  The edit, type, cancel, edit sequence on a list of rows: what the three pairs of handlers
  do to their list.
\<close>

lemma edit_cancel_rows:
  assumes "find_row i rows = Some r" and "viewing r"
  shows "find_row i (upd_row i start_edit rows) = Some (start_edit r)"
    and "find_row i (upd_row i (type_into v) (upd_row i start_edit rows))
           = Some (type_into v (start_edit r))"
    and "find_row i (upd_row i reset_row (upd_row i (type_into v) (upd_row i start_edit rows)))
           = Some (r\<lparr>edit_value := v\<rparr>)"
    and "upd_row i start_edit
           (upd_row i reset_row (upd_row i (type_into v) (upd_row i start_edit rows)))
           = upd_row i start_edit rows"
proof -
  have i: "rid r = i"
    using assms(1) by (rule find_row_rid)
  show 1: "find_row i (upd_row i start_edit rows) = Some (start_edit r)"
    using assms(1) i by (simp add: find_row_upd_row)
  show 2: "find_row i (upd_row i (type_into v) (upd_row i start_edit rows))
           = Some (type_into v (start_edit r))"
    using 1 i by (simp add: find_row_upd_row)
  have "find_row i (upd_row i reset_row (upd_row i (type_into v) (upd_row i start_edit rows)))
           = Some (reset_row (type_into v (start_edit r)))"
    using 2 i by (simp add: find_row_upd_row)
  then show "find_row i (upd_row i reset_row (upd_row i (type_into v) (upd_row i start_edit rows)))
           = Some (r\<lparr>edit_value := v\<rparr>)"
    using assms(2) by (simp add: reset_row_after_edit)
  have "upd_row i start_edit
           (upd_row i reset_row (upd_row i (type_into v) (upd_row i start_edit rows)))
          = upd_row i (\<lambda>r. start_edit (reset_row (type_into v (start_edit r)))) rows"
    by (simp add: upd_row_comp)
  also have "\<dots> = upd_row i start_edit rows"
    using assms
    by (intro upd_row_cong [of i rows r])
       (simp_all add: reset_row_after_edit start_edit_forgets_edit_value)
  finally show "upd_row i start_edit
           (upd_row i reset_row (upd_row i (type_into v) (upd_row i start_edit rows)))
           = upd_row i start_edit rows" .
qed

text \<open>
  C9, as the handlers implement it. On a row in viewing state, of any of the three lists,
  the edit click causes no request, fills the edit field with the trimmed text of the name
  and leaves the row in editing state (name, edit button and delete button hidden; field,
  save button and cancel button shown). Whatever is then typed into the field, the cancel
  click causes no request and leaves the row in viewing state with its name unchanged. It
  does not clear the field: the row differs from the original one in that the hidden field
  still holds what was typed. It is the next edit click that overwrites the field with the
  name, and so leads to the very page the first edit click led to.
\<close>

theorem edit_then_cancel:
  "(find_row i (category_rows s) = Some r \<and> viewing r \<longrightarrow>
      (let s1 = fst (category_edit_click i s);
           s2 = s1\<lparr>category_rows := upd_row i (type_into v) (category_rows s1)\<rparr>;
           s3 = fst (category_cancel_click i s2)
       in snd (category_edit_click i s) = []
          \<and> find_row i (category_rows s1) = Some (start_edit r)
          \<and> edit_value (start_edit r) = trim (row_label r)
          \<and> editing (start_edit r)
          \<and> snd (category_cancel_click i s2) = []
          \<and> find_row i (category_rows s3) = Some (r\<lparr>edit_value := v\<rparr>)
          \<and> viewing (r\<lparr>edit_value := v\<rparr>)
          \<and> row_label (r\<lparr>edit_value := v\<rparr>) = row_label r
          \<and> fst (category_edit_click i s3) = s1))
   \<and> (find_row i (topic_rows s) = Some r \<and> viewing r \<longrightarrow>
      (let s1 = fst (topic_edit_click i s);
           s2 = s1\<lparr>topic_rows := upd_row i (type_into v) (topic_rows s1)\<rparr>;
           s3 = fst (topic_cancel_click i s2)
       in snd (topic_edit_click i s) = []
          \<and> find_row i (topic_rows s1) = Some (start_edit r)
          \<and> edit_value (start_edit r) = trim (row_label r)
          \<and> editing (start_edit r)
          \<and> snd (topic_cancel_click i s2) = []
          \<and> find_row i (topic_rows s3) = Some (r\<lparr>edit_value := v\<rparr>)
          \<and> viewing (r\<lparr>edit_value := v\<rparr>)
          \<and> row_label (r\<lparr>edit_value := v\<rparr>) = row_label r
          \<and> fst (topic_edit_click i s3) = s1))
   \<and> (find_row i (group_rows s) = Some r \<and> viewing r \<longrightarrow>
      (let s1 = fst (group_edit_click i s);
           s2 = s1\<lparr>group_rows := upd_row i (type_into v) (group_rows s1)\<rparr>;
           s3 = fst (group_cancel_click i s2)
       in snd (group_edit_click i s) = []
          \<and> find_row i (group_rows s1) = Some (start_edit r)
          \<and> edit_value (start_edit r) = trim (row_label r)
          \<and> editing (start_edit r)
          \<and> snd (group_cancel_click i s2) = []
          \<and> find_row i (group_rows s3) = Some (r\<lparr>edit_value := v\<rparr>)
          \<and> viewing (r\<lparr>edit_value := v\<rparr>)
          \<and> row_label (r\<lparr>edit_value := v\<rparr>) = row_label r
          \<and> fst (group_edit_click i s3) = s1))"
proof -
  have row: "edit_value (start_edit r) = trim (row_label r)" "editing (start_edit r)"
    "viewing r \<Longrightarrow> viewing (r\<lparr>edit_value := v\<rparr>)"
    by (simp_all add: start_edit_def editing_def viewing_def)
  show ?thesis
    unfolding Let_def
    by (intro conjI impI)
       (use row in \<open>simp_all add: category_edit_click_def category_cancel_click_def
          topic_edit_click_def topic_cancel_click_def group_edit_click_def group_cancel_click_def
          resetCategoryRow_def resetTopicRow_def resetGroupRow_def edit_cancel_rows\<close>)
qed

theorem edit_then_cancel_witness:
  "find_row 1 (category_rows example_page) = Some example_row_A \<and> viewing example_row_A
   \<and> find_row 10 (topic_rows example_page) = Some (example_row_T)
   \<and> viewing (example_row_T)
   \<and> find_row 100 (group_rows example_page) = Some (render_row (100, ''G1''))
   \<and> viewing (render_row (100, ''G1''))
   \<and> find_row 1 (category_rows (fst (category_edit_click 1 example_page)))
        = Some (start_edit example_row_A)
   \<and> find_row 10 (topic_rows (fst (topic_edit_click 10 example_page)))
        = Some (start_edit (example_row_T))
   \<and> find_row 100 (group_rows (fst (group_edit_click 100 example_page)))
        = Some (start_edit (render_row (100, ''G1'')))
   \<and> edit_value (start_edit (example_row_T)) = ''T1''
   \<and> editing (start_edit (example_row_T))"
proof -
  have c: "find_row 1 (category_rows example_page) = Some example_row_A \<and> viewing example_row_A"
    by (simp add: example_page_def example_row_A_def find_row_def viewing_def)
  have t: "find_row 10 (topic_rows example_page) = Some (example_row_T)
           \<and> viewing (example_row_T)"
    by (simp add: example_page_def find_row_def viewing_def render_row_def example_row_T_def
        type_into_def)
  have g: "find_row 100 (group_rows example_page) = Some (render_row (100, ''G1''))
           \<and> viewing (render_row (100, ''G1''))"
    by (simp add: example_page_def find_row_def viewing_def render_row_def)
  have v: "trim (row_label (example_row_T)) = ''T1''"
    by code_simp
  from edit_then_cancel [of 1 example_page example_row_A "''zzz''"] c
  have 1: "find_row 1 (category_rows (fst (category_edit_click 1 example_page)))
        = Some (start_edit example_row_A)"
    by (simp add: Let_def)
  from edit_then_cancel [of 10 example_page "example_row_T" "''zzz''"] t
  have 2: "find_row 10 (topic_rows (fst (topic_edit_click 10 example_page)))
        = Some (start_edit (example_row_T))"
    and 3: "edit_value (start_edit (example_row_T)) = trim (row_label (example_row_T))"
    and 4: "editing (start_edit (example_row_T))"
    by (simp_all add: Let_def)
  from edit_then_cancel [of 100 example_page "render_row (100, ''G1'')" "''zzz''"] g
  have 5: "find_row 100 (group_rows (fst (group_edit_click 100 example_page)))
        = Some (start_edit (render_row (100, ''G1'')))"
    by (simp add: Let_def)
  show ?thesis
    using c t g 1 2 3 4 5 v by simp
qed

text \<open>
  The claim as written fails in its last part: the cancel click does not discard the
  content of the edit field. After an edit click on the first category row, the text
  \<open>zzz\<close> typed into the field and a cancel click, the field holds \<open>zzz\<close>.
\<close>

theorem cancel_keeps_field_counterexample:
  "map_option edit_value
     (find_row 1 (category_rows (fst (category_cancel_click 1
        ((fst (category_edit_click 1 example_page))
           \<lparr>category_rows :=
              upd_row 1 (type_into ''zzz'')
                (category_rows (fst (category_edit_click 1 example_page)))\<rparr>)))))
     = Some ''zzz''"
  by (simp add: category_cancel_click_def category_edit_click_def resetCategoryRow_def
      example_page_def example_row_A_def example_row_B_def find_row_def start_edit_def
      type_into_def reset_row_def)

subsection \<open>Responses\<close>

lemma api_failure_ok:
  assumes "get_prop data ''status'' = Some (JStr ''ok'')"
  shows "api_failure fallback True (Some data) = None"
  using assms by (cases data) (simp_all add: api_failure_def)

lemma api_failure_unparsed:
  "api_failure fallback ok None = Some [ConsoleError, Alert (Some (JStr fallback))]"
  by (simp add: api_failure_def)

lemma api_failure_rejected_payload:
  assumes "data \<noteq> JNull" and "\<not> ok \<or> get_prop data ''status'' \<noteq> Some (JStr ''ok'')"
  shows "api_failure fallback ok (Some data) =
           Some [Alert (if truthy (get_prop data ''message'') then get_prop data ''message''
                        else if truthy (get_prop data ''detail'') then get_prop data ''detail''
                        else Some (JStr fallback))]"
  using assms by (cases data) (auto simp: api_failure_def js_or_def)

text \<open>
  The two conversions at work: \<open>2 ^ 53 + 1\<close> is not a double and reads as \<open>2 ^ 53\<close>, and the
  text of \<open>10 ^ 21\<close> is \<open>1e+21\<close>, of which \<open>parseInt\<close> reads the \<open>1\<close>; so it does of the
  double next to \<open>10 ^ 23\<close>, whose text is \<open>1e+23\<close>.
\<close>

lemma js_Number_small: "\<bar>n\<bar> < 2 ^ 53 \<Longrightarrow> js_Number n = Num n"
  by (simp add: js_Number_def Let_def)

lemma js_Number_rounds:
  "js_Number 9007199254740993 = Num 9007199254740992"
  "js_Number 9007199254740995 = Num 9007199254740996"
  by code_simp+

lemma parseInt_String_small: "\<bar>n\<bar> < 10 ^ 21 \<Longrightarrow> parseInt_String n = Num n"
  by (simp add: parseInt_String_def Let_def)

lemma parseInt_String_exponent:
  "parseInt_String 1000000000000000000000 = Num 1"
  "parseInt_String 99999999999999991611392 = Num 1"
  "parseInt_String 2000000000000000000000 = Num 2"
  by code_simp+

lemma js_Number_not_NaN: "js_Number n \<noteq> NaN"
  by (simp add: js_Number_def Let_def)

lemma strict_eq_refl: "x \<noteq> NaN \<Longrightarrow> strict_eq x x"
  by (cases x) simp_all

lemma strict_eq_opt_js_Number: "strict_eq_opt (js_Number i) (Some (js_Number i))"
  by (simp add: strict_eq_opt_def strict_eq_refl js_Number_not_NaN)

text \<open>
  C6. When the edit field of a row holds a name that is not empty once trimmed, and the
  update request is answered by an \<open>ok\<close> response whose payload has the status \<open>"ok"\<close>,
  the save click sends that name, and afterwards the name span of the row shows it and the
  row is in viewing state. For a category and for a topic, when the row is the selected
  one (the current id is the number of the row's \<open>data-id\<close>), the cached name of the
  selection is the new name and the selection label shows it. More exactly, both are
  updated when \<open>Number(id) === currentCategoryId\<close> holds, and left as they were when it
  does not. A group has no selection.
\<close>

theorem save_success_updates:
  "(find_row i (category_rows s) = Some r \<and> trim (edit_value r) = name \<and> name \<noteq> []
      \<and> get_prop data ''status'' = Some (JStr ''ok'') \<longrightarrow>
      (let s' = fst (category_save_click i (Response True (Some data)) s)
       in snd (category_save_click i (Response True (Some data)) s)
            = [Request (CategoryUpdate i name)]
          \<and> find_row i (category_rows s') = Some (reset_row (r\<lparr>row_label := name\<rparr>))
          \<and> row_label (reset_row (r\<lparr>row_label := name\<rparr>)) = name
          \<and> viewing (reset_row (r\<lparr>row_label := name\<rparr>))
          \<and> (currentCategoryId s = Some (js_Number i) \<longrightarrow>
                currentCategoryName s' = name
                \<and> current_category_label s' = label_selected_category @ name)
          \<and> (strict_eq_opt (js_Number i) (currentCategoryId s) \<longrightarrow>
                currentCategoryName s' = name
                \<and> current_category_label s' = label_selected_category @ name)
          \<and> (\<not> strict_eq_opt (js_Number i) (currentCategoryId s) \<longrightarrow>
                currentCategoryName s' = currentCategoryName s
                \<and> current_category_label s' = current_category_label s)))
   \<and> (find_row i (topic_rows s) = Some r \<and> trim (edit_value r) = name \<and> name \<noteq> []
      \<and> get_prop data ''status'' = Some (JStr ''ok'') \<longrightarrow>
      (let s' = fst (topic_save_click i (Response True (Some data)) s)
       in snd (topic_save_click i (Response True (Some data)) s)
            = [Request (TopicUpdate i name)]
          \<and> find_row i (topic_rows s') = Some (reset_row (r\<lparr>row_label := name\<rparr>))
          \<and> row_label (reset_row (r\<lparr>row_label := name\<rparr>)) = name
          \<and> viewing (reset_row (r\<lparr>row_label := name\<rparr>))
          \<and> (currentTopicId s = Some (js_Number i) \<longrightarrow>
                currentTopicName s' = name
                \<and> current_topic_label s' = label_selected_topic @ name)
          \<and> (strict_eq_opt (js_Number i) (currentTopicId s) \<longrightarrow>
                currentTopicName s' = name
                \<and> current_topic_label s' = label_selected_topic @ name)
          \<and> (\<not> strict_eq_opt (js_Number i) (currentTopicId s) \<longrightarrow>
                currentTopicName s' = currentTopicName s
                \<and> current_topic_label s' = current_topic_label s)))
   \<and> (find_row i (group_rows s) = Some r \<and> trim (edit_value r) = name \<and> name \<noteq> []
      \<and> get_prop data ''status'' = Some (JStr ''ok'') \<longrightarrow>
      (let s' = fst (group_save_click i (Response True (Some data)) s)
       in snd (group_save_click i (Response True (Some data)) s)
            = [Request (GroupUpdate i name)]
          \<and> find_row i (group_rows s') = Some (reset_row (r\<lparr>row_label := name\<rparr>))
          \<and> row_label (reset_row (r\<lparr>row_label := name\<rparr>)) = name
          \<and> viewing (reset_row (r\<lparr>row_label := name\<rparr>))))"
proof -
  have rows: "find_row i (upd_row i reset_row (upd_row i (\<lambda>r. r\<lparr>row_label := name\<rparr>) rows))
                = Some (reset_row (r\<lparr>row_label := name\<rparr>))"
    if "find_row i rows = Some r" for rows
  proof -
    have i: "rid r = i"
      using that by (rule find_row_rid)
    have "find_row i (upd_row i (\<lambda>r. r\<lparr>row_label := name\<rparr>) rows) = Some (r\<lparr>row_label := name\<rparr>)"
      using that i by (simp add: find_row_upd_row)
    then show ?thesis
      using i by (simp add: find_row_upd_row)
  qed
  have row: "row_label (reset_row (r\<lparr>row_label := name\<rparr>)) = name"
    "viewing (reset_row (r\<lparr>row_label := name\<rparr>))"
    by (simp_all add: reset_row_def viewing_def)
  have c: "find_row i (category_rows s) = Some r \<and> trim (edit_value r) = name \<and> name \<noteq> []
      \<and> get_prop data ''status'' = Some (JStr ''ok'') \<Longrightarrow>
      category_save_click i (Response True (Some data)) s =
        (let s2 = s\<lparr>category_rows :=
                      upd_row i reset_row (upd_row i (\<lambda>r. r\<lparr>row_label := name\<rparr>) (category_rows s))\<rparr>
         in (if strict_eq_opt (js_Number i) (currentCategoryId s)
             then s2\<lparr>currentCategoryName := name,
                     current_category_label := label_selected_category @ name\<rparr>
             else s2,
             [Request (CategoryUpdate i name)]))"
    by (auto simp: category_save_click_def api_failure_ok resetCategoryRow_def Let_def)
  have t: "find_row i (topic_rows s) = Some r \<and> trim (edit_value r) = name \<and> name \<noteq> []
      \<and> get_prop data ''status'' = Some (JStr ''ok'') \<Longrightarrow>
      topic_save_click i (Response True (Some data)) s =
        (let s2 = s\<lparr>topic_rows :=
                      upd_row i reset_row (upd_row i (\<lambda>r. r\<lparr>row_label := name\<rparr>) (topic_rows s))\<rparr>
         in (if strict_eq_opt (js_Number i) (currentTopicId s)
             then s2\<lparr>currentTopicName := name,
                     current_topic_label := label_selected_topic @ name\<rparr>
             else s2,
             [Request (TopicUpdate i name)]))"
    by (auto simp: topic_save_click_def api_failure_ok resetTopicRow_def Let_def)
  have g: "find_row i (group_rows s) = Some r \<and> trim (edit_value r) = name \<and> name \<noteq> []
      \<and> get_prop data ''status'' = Some (JStr ''ok'') \<Longrightarrow>
      group_save_click i (Response True (Some data)) s =
        (s\<lparr>group_rows :=
             upd_row i reset_row (upd_row i (\<lambda>r. r\<lparr>row_label := name\<rparr>) (group_rows s))\<rparr>,
         [Request (GroupUpdate i name)])"
    by (auto simp: group_save_click_def api_failure_ok resetGroupRow_def Let_def)
  show ?thesis
    unfolding Let_def
    by (intro conjI impI)
       (use row rows strict_eq_opt_js_Number [of i] in \<open>auto simp: c t g Let_def\<close>)
qed

theorem save_success_updates_witness:
  "find_row 2 (category_rows example_page) = Some example_row_B
   \<and> trim (edit_value example_row_B) = ''B2''
   \<and> find_row 10 (topic_rows example_page) = Some example_row_T
   \<and> trim (edit_value example_row_T) = ''T9''
   \<and> find_row 100 (group_rows example_page) = Some (render_row (100, ''G1''))
   \<and> trim (edit_value (render_row (100, ''G1''))) = ''G1''
   \<and> get_prop (JObj [(''status'', JStr ''ok'')]) ''status'' = Some (JStr ''ok'')
   \<and> \<not> strict_eq_opt (js_Number 2) (currentCategoryId example_page)
   \<and> currentTopicId example_page = Some (js_Number 10)
   \<and> strict_eq_opt (js_Number 9007199254740993) (currentCategoryId example_page_large_ids)
   \<and> snd (category_save_click 2 (Response True (Some (JObj [(''status'', JStr ''ok'')]))) example_page)
        = [Request (CategoryUpdate 2 ''B2'')]
   \<and> find_row 2 (category_rows
         (fst (category_save_click 2 (Response True (Some (JObj [(''status'', JStr ''ok'')]))) example_page)))
        = Some (reset_row (example_row_B\<lparr>row_label := ''B2''\<rparr>))
   \<and> currentCategoryName
         (fst (category_save_click 2 (Response True (Some (JObj [(''status'', JStr ''ok'')]))) example_page))
        = ''A''
   \<and> find_row 10 (topic_rows
         (fst (topic_save_click 10 (Response True (Some (JObj [(''status'', JStr ''ok'')]))) example_page)))
        = Some (reset_row (example_row_T\<lparr>row_label := ''T9''\<rparr>))
   \<and> currentTopicName
         (fst (topic_save_click 10 (Response True (Some (JObj [(''status'', JStr ''ok'')]))) example_page))
        = ''T9''
   \<and> current_topic_label
         (fst (topic_save_click 10 (Response True (Some (JObj [(''status'', JStr ''ok'')]))) example_page))
        = label_selected_topic @ ''T9''
   \<and> find_row 100 (group_rows
         (fst (group_save_click 100 (Response True (Some (JObj [(''status'', JStr ''ok'')]))) example_page)))
        = Some (reset_row ((render_row (100, ''G1''))\<lparr>row_label := ''G1''\<rparr>))
   \<and> currentCategoryName
         (fst (category_save_click 9007199254740993
                 (Response True (Some (JObj [(''status'', JStr ''ok'')]))) example_page_large_ids))
        = ''B2''"
proof -
  have c: "find_row 2 (category_rows example_page) = Some example_row_B"
    by (simp add: example_page_def example_row_A_def example_row_B_def find_row_def)
  have cn: "trim (edit_value example_row_B) = ''B2''"
    by code_simp
  have t: "find_row 10 (topic_rows example_page) = Some example_row_T"
    by (simp add: example_page_def example_row_T_def type_into_def render_row_def find_row_def)
  have tn: "trim (edit_value example_row_T) = ''T9''"
    by code_simp
  have g: "find_row 100 (group_rows example_page) = Some (render_row (100, ''G1''))"
    by (simp add: example_page_def render_row_def find_row_def)
  have gn: "trim (edit_value (render_row (100, ''G1''))) = ''G1''"
    by code_simp
  have num: "js_Number 2 = Num 2" "js_Number 10 = Num 10"
    by (simp_all add: js_Number_def)
  have big: "js_Number 9007199254740993 = Num 9007199254740992"
    by code_simp
  have sel: "\<not> strict_eq_opt (js_Number 2) (currentCategoryId example_page)"
    "currentTopicId example_page = Some (js_Number 10)"
    "currentCategoryName example_page = ''A''"
    "strict_eq_opt (js_Number 9007199254740993) (currentCategoryId example_page_large_ids)"
    by (simp_all add: example_page_def example_page_large_ids_def num big strict_eq_opt_def)
  have l: "find_row 9007199254740993 (category_rows example_page_large_ids) =
             Some \<lparr>rid = 9007199254740993, row_label = ''B'', edit_value = ''B2'',
                   name_hidden = True, input_hidden = False, edit_hidden = True,
                   save_hidden = False, cancel_hidden = False, delete_hidden = True\<rparr>"
    by (simp add: example_page_large_ids_def find_row_def)
  have ln: "trim ''B2'' = ''B2''"
    by code_simp
  from save_success_updates [of 2 example_page example_row_B "''B2''" "JObj [(''status'', JStr ''ok'')]"]
    c cn sel
  have 1: "snd (category_save_click 2 (Response True (Some (JObj [(''status'', JStr ''ok'')]))) example_page)
        = [Request (CategoryUpdate 2 ''B2'')]"
    and 2: "find_row 2 (category_rows
         (fst (category_save_click 2 (Response True (Some (JObj [(''status'', JStr ''ok'')]))) example_page)))
        = Some (reset_row (example_row_B\<lparr>row_label := ''B2''\<rparr>))"
    and 3: "currentCategoryName
         (fst (category_save_click 2 (Response True (Some (JObj [(''status'', JStr ''ok'')]))) example_page))
        = ''A''"
    by (simp_all add: Let_def)
  from save_success_updates [of 10 example_page example_row_T "''T9''" "JObj [(''status'', JStr ''ok'')]"]
    t tn sel
  have 4: "find_row 10 (topic_rows
         (fst (topic_save_click 10 (Response True (Some (JObj [(''status'', JStr ''ok'')]))) example_page)))
        = Some (reset_row (example_row_T\<lparr>row_label := ''T9''\<rparr>))"
    and 5: "currentTopicName
         (fst (topic_save_click 10 (Response True (Some (JObj [(''status'', JStr ''ok'')]))) example_page))
        = ''T9''"
    and 6: "current_topic_label
         (fst (topic_save_click 10 (Response True (Some (JObj [(''status'', JStr ''ok'')]))) example_page))
        = label_selected_topic @ ''T9''"
    by (simp_all add: Let_def)
  from save_success_updates [of 100 example_page "render_row (100, ''G1'')" "''G1''"
      "JObj [(''status'', JStr ''ok'')]"] g gn
  have 7: "find_row 100 (group_rows
         (fst (group_save_click 100 (Response True (Some (JObj [(''status'', JStr ''ok'')]))) example_page)))
        = Some (reset_row ((render_row (100, ''G1''))\<lparr>row_label := ''G1''\<rparr>))"
    by (simp add: Let_def)
  from save_success_updates [of 9007199254740993 example_page_large_ids
      "\<lparr>rid = 9007199254740993, row_label = ''B'', edit_value = ''B2'',
        name_hidden = True, input_hidden = False, edit_hidden = True,
        save_hidden = False, cancel_hidden = False, delete_hidden = True\<rparr>"
      "''B2''" "JObj [(''status'', JStr ''ok'')]"] l ln sel
  have 8: "currentCategoryName
         (fst (category_save_click 9007199254740993
                 (Response True (Some (JObj [(''status'', JStr ''ok'')]))) example_page_large_ids))
        = ''B2''"
    by (simp add: Let_def)
  show ?thesis
    using c cn t tn g gn sel 1 2 3 4 5 6 7 8 by simp
qed

text \<open>
  C8. When the field for the new category holds a name that is not empty once trimmed,
  \<open>handleCreateCategory\<close> sends the trimmed name with an empty topic name and an empty
  group name, and on every response, whatever its \<open>ok\<close> flag and its body, it reloads the
  page and does nothing else: the result does not depend on the response.
\<close>

theorem create_category_reloads:
  assumes "trim (new_category s) \<noteq> []"
  shows "handleCreateCategory (Response ok body) s =
           (s, [Request (CategoryCreate (trim (new_category s)) [] []), Reload])"
  using assms by (simp add: handleCreateCategory_def Let_def)

theorem create_category_reloads_witness:
  "trim (new_category example_page) \<noteq> []
   \<and> handleCreateCategory (Response False None) example_page =
       (example_page, [Request (CategoryCreate ''News'' [] []), Reload])"
proof -
  have n: "trim (new_category example_page) = ''News''"
    by code_simp
  then have h: "trim (new_category example_page) \<noteq> []"
    by simp
  from create_category_reloads [OF h, of False None] n h
  show ?thesis by simp
qed

subsection \<open>Selecting a category\<close>

text \<open>
  C2, as \<open>loadTopics\<close> implements it. For every category id and name, \<open>loadTopics\<close> sets
  the current category to that id and name and the current topic to \<open>null\<close> and the empty
  name, whatever the outcome of the topic request. When the request returns a body that
  parses as JSON, the rendered group list is emptied and the group-create area is hidden;
  when the request is rejected or its body is not JSON, the function ends at the \<open>await\<close>
  and both are left as they were.
\<close>

theorem loadTopics_selection:
  "currentCategoryId (fst (loadTopics i n l s)) = Some i
   \<and> currentCategoryName (fst (loadTopics i n l s)) = n
   \<and> currentTopicId (fst (loadTopics i n l s)) = None
   \<and> currentTopicName (fst (loadTopics i n l s)) = []
   \<and> (body_parsed l \<longrightarrow>
         group_rows (fst (loadTopics i n l s)) = []
         \<and> group_create_hidden (fst (loadTopics i n l s)))
   \<and> (\<not> body_parsed l \<longrightarrow>
         group_rows (fst (loadTopics i n l s)) = group_rows s
         \<and> group_create_hidden (fst (loadTopics i n l s)) = group_create_hidden s)"
  by (cases l) (simp_all add: loadTopics_def Let_def)

theorem loadTopics_selection_witness:
  "body_parsed (Entities [(20, ''T5'')])
   \<and> \<not> body_parsed BodyNotJson
   \<and> currentCategoryId (fst (loadTopics (Num 2) ''B'' (Entities [(20, ''T5'')]) example_page)) = Some (Num 2)
   \<and> currentTopicId (fst (loadTopics (Num 2) ''B'' (Entities [(20, ''T5'')]) example_page)) = None
   \<and> group_rows (fst (loadTopics (Num 2) ''B'' (Entities [(20, ''T5'')]) example_page)) = []
   \<and> group_create_hidden (fst (loadTopics (Num 2) ''B'' (Entities [(20, ''T5'')]) example_page))
   \<and> group_rows (fst (loadTopics (Num 2) ''B'' BodyNotJson example_page)) = group_rows example_page"
  using loadTopics_selection [of "Num 2" "''B''" "Entities [(20, ''T5'')]" example_page]
    loadTopics_selection [of "Num 2" "''B''" BodyNotJson example_page]
  by simp

text \<open>
  The claim as written fails when the topic request is rejected: the group rows of the
  former topic stay rendered and the group-create area stays visible.
\<close>

theorem loadTopics_rejected_counterexample:
  "group_rows (fst (loadTopics (Num 2) ''B'' FetchRejected example_page)) = [render_row (100, ''G1'')]
   \<and> \<not> group_create_hidden (fst (loadTopics (Num 2) ''B'' FetchRejected example_page))"
  by (simp add: loadTopics_def Let_def example_page_def)

subsection \<open>Creating a topic or a group\<close>

text \<open>
  C7, as the two handlers implement it. With a parent selected and a name that is not
  empty once trimmed, a response whose body parses as JSON other than \<open>null\<close> is judged
  by the \<open>status\<close> of its payload alone, whatever the HTTP status. When that status is
  not \<open>"ok"\<close>, the page is left as it was (the field keeps its text and the list is not
  loaded again) and one alert follows the request: the \<open>message\<close> of the payload when it
  is truthy, and the fixed text otherwise; the \<open>detail\<close> of the payload is not read. When
  that status is \<open>"ok"\<close>, the field is emptied and the list is loaded again.
\<close>

theorem create_failure_shows_message:
  "(currentCategoryId s = Some c \<and> trim (new_topic s) = name \<and> name \<noteq> [] \<and> data \<noteq> JNull \<longrightarrow>
      (get_prop data ''status'' \<noteq> Some (JStr ''ok'') \<longrightarrow>
         handleCreateTopic (Response ok (Some data)) l s =
           (s, [Request (TopicCreate c name),
                Alert (if truthy (get_prop data ''message'') then get_prop data ''message''
                       else Some (JStr msg_topic_create_failed))]))
      \<and> (get_prop data ''status'' = Some (JStr ''ok'') \<longrightarrow>
         handleCreateTopic (Response ok (Some data)) l s =
           (fst (loadTopics c (currentCategoryName s) l (s\<lparr>new_topic := []\<rparr>)),
            Request (TopicCreate c name)
              # snd (loadTopics c (currentCategoryName s) l (s\<lparr>new_topic := []\<rparr>)))))
   \<and> (currentTopicId s = Some t \<and> trim (new_group s) = name \<and> name \<noteq> [] \<and> data \<noteq> JNull \<longrightarrow>
      (get_prop data ''status'' \<noteq> Some (JStr ''ok'') \<longrightarrow>
         handleCreateGroup (Response ok (Some data)) l s =
           (s, [Request (GroupCreate t name),
                Alert (if truthy (get_prop data ''message'') then get_prop data ''message''
                       else Some (JStr msg_group_create_failed))]))
      \<and> (get_prop data ''status'' = Some (JStr ''ok'') \<longrightarrow>
         handleCreateGroup (Response ok (Some data)) l s =
           (fst (loadGroups t (currentTopicName s) l (s\<lparr>new_group := []\<rparr>)),
            Request (GroupCreate t name)
              # snd (loadGroups t (currentTopicName s) l (s\<lparr>new_group := []\<rparr>)))))"
proof (intro conjI impI)
  assume a: "currentCategoryId s = Some c \<and> trim (new_topic s) = name \<and> name \<noteq> [] \<and> data \<noteq> JNull"
  {
    assume "get_prop data ''status'' \<noteq> Some (JStr ''ok'')"
    with a show "handleCreateTopic (Response ok (Some data)) l s =
           (s, [Request (TopicCreate c name),
                Alert (if truthy (get_prop data ''message'') then get_prop data ''message''
                       else Some (JStr msg_topic_create_failed))])"
      by (cases data) (auto simp: handleCreateTopic_def Let_def js_or_def)
  }
  {
    assume "get_prop data ''status'' = Some (JStr ''ok'')"
    with a show "handleCreateTopic (Response ok (Some data)) l s =
           (fst (loadTopics c (currentCategoryName s) l (s\<lparr>new_topic := []\<rparr>)),
            Request (TopicCreate c name)
              # snd (loadTopics c (currentCategoryName s) l (s\<lparr>new_topic := []\<rparr>)))"
      by (cases data) (auto simp: handleCreateTopic_def Let_def split: prod.splits)
  }
next
  assume a: "currentTopicId s = Some t \<and> trim (new_group s) = name \<and> name \<noteq> [] \<and> data \<noteq> JNull"
  {
    assume "get_prop data ''status'' \<noteq> Some (JStr ''ok'')"
    with a show "handleCreateGroup (Response ok (Some data)) l s =
           (s, [Request (GroupCreate t name),
                Alert (if truthy (get_prop data ''message'') then get_prop data ''message''
                       else Some (JStr msg_group_create_failed))])"
      by (cases data) (auto simp: handleCreateGroup_def Let_def js_or_def)
  }
  {
    assume "get_prop data ''status'' = Some (JStr ''ok'')"
    with a show "handleCreateGroup (Response ok (Some data)) l s =
           (fst (loadGroups t (currentTopicName s) l (s\<lparr>new_group := []\<rparr>)),
            Request (GroupCreate t name)
              # snd (loadGroups t (currentTopicName s) l (s\<lparr>new_group := []\<rparr>)))"
      by (cases data) (auto simp: handleCreateGroup_def Let_def split: prod.splits)
  }
qed

theorem create_failure_shows_message_witness:
  "currentCategoryId example_page = Some (Num 1) \<and> trim (new_topic example_page) = ''T2''
   \<and> currentTopicId example_page = Some (Num 10) \<and> trim (new_group example_page) = ''G2''
   \<and> get_prop (JObj [(''status'', JStr ''error''), (''message'', JStr ''in use'')]) ''status''
        \<noteq> Some (JStr ''ok'')
   \<and> handleCreateTopic
        (Response True (Some (JObj [(''status'', JStr ''error''), (''message'', JStr ''in use'')])))
        FetchRejected example_page
       = (example_page, [Request (TopicCreate (Num 1) ''T2''), Alert (Some (JStr ''in use''))])
   \<and> handleCreateGroup
        (Response True (Some (JObj [(''status'', JStr ''error''), (''message'', JStr ''in use'')])))
        FetchRejected example_page
       = (example_page, [Request (GroupCreate (Num 10) ''G2''), Alert (Some (JStr ''in use''))])
   \<and> new_topic (fst (handleCreateTopic (Response True (Some (JObj [(''status'', JStr ''ok'')])))
        (Entities []) example_page)) = []"
proof -
  have h: "currentCategoryId example_page = Some (Num 1)" "currentTopicId example_page = Some (Num 10)"
    by (simp_all add: example_page_def)
  have n: "trim (new_topic example_page) = ''T2''" "trim (new_group example_page) = ''G2''"
    by code_simp+
  from create_failure_shows_message [where s = example_page and c = "Num 1" and name = "''T2''"
      and data = "JObj [(''status'', JStr ''error''), (''message'', JStr ''in use'')]"
      and ok = True and l = FetchRejected]
    h n
  have 1: "handleCreateTopic
        (Response True (Some (JObj [(''status'', JStr ''error''), (''message'', JStr ''in use'')])))
        FetchRejected example_page
       = (example_page, [Request (TopicCreate (Num 1) ''T2''), Alert (Some (JStr ''in use''))])"
    by simp
  from create_failure_shows_message [where s = example_page and t = "Num 10" and name = "''G2''"
      and data = "JObj [(''status'', JStr ''error''), (''message'', JStr ''in use'')]"
      and ok = True and l = FetchRejected]
    h n
  have 2: "handleCreateGroup
        (Response True (Some (JObj [(''status'', JStr ''error''), (''message'', JStr ''in use'')])))
        FetchRejected example_page
       = (example_page, [Request (GroupCreate (Num 10) ''G2''), Alert (Some (JStr ''in use''))])"
    by simp
  from create_failure_shows_message [where s = example_page and c = "Num 1" and name = "''T2''"
      and data = "JObj [(''status'', JStr ''ok'')]" and ok = True and l = "Entities []"] h n
  have 3: "new_topic (fst (handleCreateTopic (Response True (Some (JObj [(''status'', JStr ''ok'')])))
        (Entities []) example_page)) = []"
    by (simp add: loadTopics_def Let_def)
  show ?thesis
    using h n 1 2 3 by simp
qed

text \<open>
  The claim as written fails twice. A response with a failing HTTP status whose payload
  has the status \<open>"ok"\<close> is treated as a success: nothing is shown, the field is emptied
  and the list is requested again. And a payload that carries a \<open>detail\<close> but no
  \<open>message\<close> yields the fixed text, not the detail.
\<close>

theorem create_failure_counterexample:
  "handleCreateTopic (Response False (Some (JObj [(''status'', JStr ''ok'')]))) (Entities [])
       example_page
     = (fst (loadTopics (Num 1) ''A'' (Entities []) (example_page\<lparr>new_topic := []\<rparr>)),
        [Request (TopicCreate (Num 1) ''T2''), Request (TopicsGet (Num 1))])
   \<and> handleCreateGroup
       (Response False (Some (JObj [(''status'', JStr ''error''), (''detail'', JStr ''in use'')])))
       (Entities []) example_page
     = (example_page, [Request (GroupCreate (Num 10) ''G2''), Alert (Some (JStr msg_group_create_failed))])"
proof -
  have h: "currentCategoryId example_page = Some (Num 1)" "currentTopicId example_page = Some (Num 10)"
    "currentCategoryName example_page = ''A''"
    by (simp_all add: example_page_def)
  have n: "trim (new_topic example_page) = ''T2''" "trim (new_group example_page) = ''G2''"
    by code_simp+
  have 1: "handleCreateTopic (Response False (Some (JObj [(''status'', JStr ''ok'')]))) (Entities [])
       example_page
     = (fst (loadTopics (Num 1) ''A'' (Entities []) (example_page\<lparr>new_topic := []\<rparr>)),
        [Request (TopicCreate (Num 1) ''T2''), Request (TopicsGet (Num 1))])"
    by (simp add: handleCreateTopic_def h n Let_def loadTopics_def)
  have 2: "handleCreateGroup
       (Response False (Some (JObj [(''status'', JStr ''error''), (''detail'', JStr ''in use'')])))
       (Entities []) example_page
     = (example_page, [Request (GroupCreate (Num 10) ''G2''), Alert (Some (JStr msg_group_create_failed))])"
    by (simp add: handleCreateGroup_def h n Let_def js_or_def)
  show ?thesis
    using 1 2 by simp
qed

subsection \<open>Failed updates and deletes\<close>

text \<open>
  Whenever the response block of an update or delete handler reports a failure, the handler
  returns the page as it was, and its effects are the request followed by those of the
  block.
\<close>

lemma failed_save_keeps_page:
  assumes "trim (edit_value r) \<noteq> []"
  shows "find_row i (category_rows s) = Some r \<Longrightarrow>
           api_failure msg_category_update_failed ok body = Some effs \<Longrightarrow>
           category_save_click i (Response ok body) s =
             (s, Request (CategoryUpdate i (trim (edit_value r))) # effs)"
    and "find_row i (topic_rows s) = Some r \<Longrightarrow>
           api_failure msg_topic_update_failed ok body = Some effs \<Longrightarrow>
           topic_save_click i (Response ok body) s =
             (s, Request (TopicUpdate i (trim (edit_value r))) # effs)"
    and "find_row i (group_rows s) = Some r \<Longrightarrow>
           api_failure msg_group_update_failed ok body = Some effs \<Longrightarrow>
           group_save_click i (Response ok body) s =
             (s, Request (GroupUpdate i (trim (edit_value r))) # effs)"
  using assms
  by (simp_all add: category_save_click_def topic_save_click_def group_save_click_def Let_def)

lemma failed_delete_keeps_page:
  shows "api_failure msg_category_delete_failed ok body = Some effs \<Longrightarrow>
           category_delete_click i True (Response ok body) s = (s, Request (CategoryDelete i) # effs)"
    and "api_failure msg_topic_delete_failed ok body = Some effs \<Longrightarrow>
           topic_delete_click i True (Response ok body) l s = (s, Request (TopicDelete i) # effs)"
    and "api_failure msg_group_delete_failed ok body = Some effs \<Longrightarrow>
           group_delete_click i True (Response ok body) l s = (s, Request (GroupDelete i) # effs)"
  by (simp_all add: category_delete_click_def topic_delete_click_def group_delete_click_def)

text \<open>
  For a payload other than \<open>null\<close>, a failure is reported exactly when the response is not
  \<open>ok\<close> or the status of the payload is not \<open>"ok"\<close>, and what is shown is the first truthy
  one of the message and the detail of the payload, or else the fixed text; for a body
  that does not parse, the error is logged and the fixed text is shown.
\<close>

lemma api_failure_iff:
  assumes "data \<noteq> JNull"
  shows "(api_failure fallback ok (Some data) = None)
           = (ok \<and> get_prop data ''status'' = Some (JStr ''ok''))"
  using assms by (cases data) (auto simp: api_failure_def)

text \<open>
  C1. The claim does not hold for a response whose body is the JSON text \<open>null\<close>.
  \<open>JSON.parse\<close> returns \<open>null\<close> without throwing, so the \<open>try\<close> is left normally; the test
  of \<open>data.status\<close> (on an \<open>ok\<close> response) or the reading of \<open>data.message\<close> (on a failing
  one) then throws a TypeError outside the \<open>try\<close>. The page is left as it was, but no
  message is shown: the effects are the request and the uncaught exception. The same block
  is in all six handlers; here it is run for the update of a category on an \<open>ok\<close>
  response and for the deletion of a group on a failing one.
\<close>

theorem null_payload_shows_nothing:
  "category_save_click 2 (Response True (Some JNull)) example_page
     = (example_page, [Request (CategoryUpdate 2 ''B2''), Uncaught TypeError])
   \<and> group_delete_click 100 True (Response False (Some JNull)) FetchRejected example_page
     = (example_page, [Request (GroupDelete 100), Uncaught TypeError])"
proof -
  have c: "find_row 2 (category_rows example_page) = Some example_row_B"
    by (simp add: example_page_def example_row_A_def example_row_B_def find_row_def)
  have cn: "trim (edit_value example_row_B) = ''B2''"
    by code_simp
  have 1: "category_save_click 2 (Response True (Some JNull)) example_page
     = (example_page, [Request (CategoryUpdate 2 ''B2''), Uncaught TypeError])"
    by (simp add: category_save_click_def c cn Let_def api_failure_def)
  have 2: "group_delete_click 100 True (Response False (Some JNull)) FetchRejected example_page
     = (example_page, [Request (GroupDelete 100), Uncaught TypeError])"
    by (simp add: group_delete_click_def api_failure_def)
  show ?thesis
    using 1 2 by simp
qed

end
